theory Spec2Isabelle
  imports Complex_Main "HOL-Library.Char_ord" "HOL-Library.AList"
begin

section \<open>Python strings\<close>

text \<open>
  The program is \<^verbatim>\<open>src/sherlock_mail.py\<close>. Its strings are modelled as \<open>string\<close>,
  one \<open>char\<close> per character: the characters are the code points 0 to 255, and the
  character tests and the lower-casing below are those of Python on these code points.
\<close>

definition is_lower :: "char \<Rightarrow> bool" where
  \<comment> \<open>the regex class \<^verbatim>\<open>[a-z]\<close>\<close>
  "is_lower c = (CHR ''a'' \<le> c \<and> c \<le> CHR ''z'')"

definition is_upper :: "char \<Rightarrow> bool" where
  \<comment> \<open>the regex class \<^verbatim>\<open>[A-Z]\<close>\<close>
  "is_upper c = (CHR ''A'' \<le> c \<and> c \<le> CHR ''Z'')"

definition is_digit :: "char \<Rightarrow> bool" where
  \<comment> \<open>the regex classes \<^verbatim>\<open>[0-9]\<close> and \<^verbatim>\<open>\d\<close>\<close>
  "is_digit c = (CHR ''0'' \<le> c \<and> c \<le> CHR ''9'')"


definition is_alpha :: "char \<Rightarrow> bool" where
  \<comment> \<open>the regex class \<^verbatim>\<open>[a-zA-Z]\<close>\<close>
  "is_alpha c = (is_lower c \<or> is_upper c)"

definition is_sep :: "char \<Rightarrow> bool" where
  \<comment> \<open>the regex class \<^verbatim>\<open>[._-]\<close>\<close>
  "is_sep c = (c = CHR ''.'' \<or> c = CHR ''_'' \<or> c = CHR ''-'')"



definition upper_letters :: string where
  "upper_letters = ''ABCDEFGHIJKLMNOPQRSTUVWXYZ''"

definition lower_letters :: string where
  "lower_letters = ''abcdefghijklmnopqrstuvwxyz''"

definition lower_char :: "char \<Rightarrow> char" where
  \<comment> \<open>the upper-case letters are \<open>A\<close> to \<open>Z\<close> and the code points C0 to DE without D7\<close>
  "lower_char c =
     (if is_upper c \<or> (CHR 0xC0 \<le> c \<and> c \<le> CHR 0xDE \<and> c \<noteq> CHR 0xD7)
      then char_of (of_char c + (32 :: nat)) else c)"

definition lower :: "string \<Rightarrow> string" where
  \<comment> \<open>\<^verbatim>\<open>str.lower\<close>\<close>
  "lower s = map lower_char s"

text \<open>
  \<^verbatim>\<open>str.capitalize\<close> puts the first character into title case and the rest into lower
  case. The title case of a character comes from Python's Unicode tables and can be
  two characters, or a character above 255, so it is a parameter of the model:
  \<open>title c\<close> is the title case of \<open>c\<close>. \<open>ascii_title\<close> is the title case of the
  ASCII characters, which is all that the examples below need.
\<close>

definition capitalize :: "(char \<Rightarrow> string) \<Rightarrow> string \<Rightarrow> string" where
  "capitalize title s = (case s of [] \<Rightarrow> [] | c # cs \<Rightarrow> title c @ lower cs)"

definition ascii_title :: "char \<Rightarrow> string" where
  "ascii_title c =
     (case map_of (zip lower_letters upper_letters) c of Some d \<Rightarrow> [d] | None \<Rightarrow> [c])"

fun split_on :: "char \<Rightarrow> string \<Rightarrow> string list" where
  \<comment> \<open>\<^verbatim>\<open>s.split(d)\<close> for a one-character separator: never empty\<close>
  "split_on d [] = [[]]"
| "split_on d (c # cs) =
     (if c = d then [] # split_on d cs
      else (case split_on d cs of [] \<Rightarrow> [[c]] | p # ps \<Rightarrow> (c # p) # ps))"

fun contains :: "string \<Rightarrow> string \<Rightarrow> bool" where
  \<comment> \<open>\<^verbatim>\<open>sub in s\<close>\<close>
  "contains sub [] = (sub = [])"
| "contains sub (c # cs) = (take (length sub) (c # cs) = sub \<or> contains sub cs)"

function remove_all :: "string \<Rightarrow> string \<Rightarrow> string" where
  \<comment> \<open>\<^verbatim>\<open>s.replace(old, '')\<close>: every occurrence, left to right, not overlapping\<close>
  "remove_all old s =
     (if old = [] \<or> s = [] then s
      else if take (length old) s = old then remove_all old (drop (length old) s)
      else hd s # remove_all old (tl s))"
  by pat_completeness auto
termination
  by (relation "measure (\<lambda>(old, s). length s)") auto

declare remove_all.simps [simp del]

fun join :: "string \<Rightarrow> string list \<Rightarrow> string" where
  \<comment> \<open>\<^verbatim>\<open>sep.join(xs)\<close>\<close>
  "join sep [] = []"
| "join sep [x] = x"
| "join sep (x # y # ys) = x @ sep @ join sep (y # ys)"

definition digit_char :: "int \<Rightarrow> char" where
  "digit_char n = ''0123456789'' ! nat n"

function str_digits :: "int \<Rightarrow> string" where
  "str_digits n =
     (if n < 10 then [digit_char n] else str_digits (n div 10) @ [digit_char (n mod 10)])"
  by pat_completeness auto
termination
  by (relation "measure nat") auto

declare str_digits.simps [simp del]

definition str_int :: "int \<Rightarrow> string" where
  \<comment> \<open>\<^verbatim>\<open>str(i)\<close>, as an f-string formats an integer\<close>
  "str_int i = (if i < 0 then CHR ''-'' # str_digits (- i) else str_digits i)"

section \<open>Regular expressions\<close>

text \<open>
  The patterns of the program use character classes, concatenation, alternation,
  \<^verbatim>\<open>+\<close> on a class and \<^verbatim>\<open>$\<close>. \<open>residuals r s\<close> lists what is left of \<open>s\<close> after
  each way of matching \<open>r\<close> at its start, in the order in which Python's backtracking
  matcher tries them (the left alternative first, the longest repetition first).
\<close>

datatype rx =
    Cls "char \<Rightarrow> bool"
  | Plus "char \<Rightarrow> bool"
  | Seq rx rx
  | Alt rx rx
  | Eol

fun after_run :: "(char \<Rightarrow> bool) \<Rightarrow> string \<Rightarrow> string list" where
  \<comment> \<open>what is left after zero or more characters of the class, longest run first\<close>
  "after_run p [] = [[]]"
| "after_run p (c # cs) = (if p c then after_run p cs @ [c # cs] else [c # cs])"

fun residuals :: "rx \<Rightarrow> string \<Rightarrow> string list" where
  "residuals (Cls p) s = (case s of [] \<Rightarrow> [] | c # cs \<Rightarrow> if p c then [cs] else [])"
| "residuals (Plus p) s = (case s of [] \<Rightarrow> [] | c # cs \<Rightarrow> if p c then after_run p cs else [])"
| "residuals (Seq a b) s = concat (map (residuals b) (residuals a s))"
| "residuals (Alt a b) s = residuals a s @ residuals b s"
| "residuals Eol s = (if s = [] \<or> s = [CHR 0x0A] then [s] else [])"

definition re_match :: "rx \<Rightarrow> string \<Rightarrow> bool" where
  \<comment> \<open>the truth value of \<^verbatim>\<open>re.match(r, s)\<close>: \<open>r\<close> matches at the start of \<open>s\<close>\<close>
  "re_match r s = (residuals r s \<noteq> [])"

fun re_search :: "rx \<Rightarrow> string \<Rightarrow> string option" where
  \<comment> \<open>\<^verbatim>\<open>re.search(r, s)\<close> with \<^verbatim>\<open>.group()\<close>: the text of the leftmost match\<close>
  "re_search r [] = (case residuals r [] of [] \<Rightarrow> None | t # _ \<Rightarrow> Some [])"
| "re_search r (c # cs) =
     (case residuals r (c # cs) of
        [] \<Rightarrow> re_search r cs
      | t # _ \<Rightarrow> Some (take (length (c # cs) - length t) (c # cs)))"

definition re_found :: "rx \<Rightarrow> string \<Rightarrow> bool" where
  \<comment> \<open>the truth value of \<^verbatim>\<open>re.search(r, s)\<close>\<close>
  "re_found r s = (re_search r s \<noteq> None)"

definition chr :: "char \<Rightarrow> rx" where
  "chr c = Cls (\<lambda>x. x = c)"

section \<open>Reputation\<close>

datatype level = Low | Medium | High

text \<open>
  What the \<^verbatim>\<open>try\<close> block around \<^verbatim>\<open>whois.whois(self.domain)\<close> comes to: it raises, or
  the record has no creation date, or the age in days is computed.
\<close>

datatype age_lookup = Lookup_raises | No_creation_date | Age int

record reputation =
  score :: int
  factors :: "string list"
  risk_level :: level

definition professional_pattern :: rx where
  \<comment> \<open>\<^verbatim>\<open>^[a-zA-Z]+\.[a-zA-Z]+\<close>\<close>
  "professional_pattern = Seq (Plus is_alpha) (Seq (chr CHR ''.'') (Plus is_alpha))"

definition simple_pattern :: rx where
  \<comment> \<open>\<^verbatim>\<open>^[a-zA-Z]+$\<close>\<close>
  "simple_pattern = Seq (Plus is_alpha) Eol"

definition char_types :: "string \<Rightarrow> int" where
  "char_types username =
     sum_list (map of_bool
       [re_found (Cls is_lower) username,
        re_found (Cls is_upper) username,
        re_found (Cls is_digit) username,
        re_found (Cls is_sep) username])"

definition reputation_age :: "age_lookup \<Rightarrow> int \<times> string list \<Rightarrow> int \<times> string list" where
  "reputation_age w st =
     (case w of
        Age domain_age \<Rightarrow>
          if domain_age > 365
          then (fst st + 20, snd st @ [''Domain age: '' @ str_int domain_age @ '' days''])
          else st
      | _ \<Rightarrow> st)"

definition reputation_pattern :: "string \<Rightarrow> int \<times> string list \<Rightarrow> int \<times> string list" where
  "reputation_pattern username st =
     (if re_match professional_pattern username
      then (fst st + 15, snd st @ [''Professional email pattern''])
      else if re_match simple_pattern username
      then (fst st + 10, snd st @ [''Simple email pattern''])
      else st)"

definition reputation_length :: "string \<Rightarrow> int \<times> string list \<Rightarrow> int \<times> string list" where
  "reputation_length username st =
     (if 6 \<le> length username \<and> length username \<le> 24
      then (fst st + 10, snd st @ [''Appropriate length''])
      else st)"

definition reputation_variety :: "string \<Rightarrow> int \<times> string list \<Rightarrow> int \<times> string list" where
  "reputation_variety username st =
     (fst st + char_types username * 5,
      snd st @ [''Character variety: '' @ str_int (char_types username) @ '' types''])"

definition reputation_total :: "string \<Rightarrow> age_lookup \<Rightarrow> int \<times> string list" where
  \<comment> \<open>\<^verbatim>\<open>reputation_score\<close> and \<^verbatim>\<open>factors\<close> when the \<^verbatim>\<open>return\<close> is reached\<close>
  "reputation_total username w =
     reputation_variety username
       (reputation_length username
         (reputation_pattern username
           (reputation_age w (0, []))))"

definition analyze_email_reputation :: "string \<Rightarrow> age_lookup \<Rightarrow> reputation" where
  "analyze_email_reputation username w =
     (let reputation_score = fst (reputation_total username w)
      in \<lparr> score = min reputation_score 100,
           factors = snd (reputation_total username w),
           risk_level = (if reputation_score > 70 then Low
                         else if reputation_score > 40 then Medium else High) \<rparr>)"

text \<open>
  The same score in the words of the specification: the shape
  \<^verbatim>\<open>firstname.lastname\<close> is one or more letters, a dot and a letter at the start of
  the username; a single alphabetic token is a non-empty run of letters; Python's
  \<^verbatim>\<open>$\<close> also accepts such a token followed by one final newline.
\<close>

definition name_dot_name :: "string \<Rightarrow> bool" where
  "name_dot_name u =
     (takeWhile is_alpha u \<noteq> [] \<and>
      (case dropWhile is_alpha u of d # c # _ \<Rightarrow> d = CHR ''.'' \<and> is_alpha c | _ \<Rightarrow> False))"

definition token :: "(char \<Rightarrow> bool) \<Rightarrow> string \<Rightarrow> bool" where
  \<comment> \<open>a non-empty string of characters of one class\<close>
  "token p u = (u \<noteq> [] \<and> list_all p u)"

definition token_nl :: "(char \<Rightarrow> bool) \<Rightarrow> string \<Rightarrow> bool" where
  \<comment> \<open>such a string followed by one final newline\<close>
  "token_nl p u = (u \<noteq> [] \<and> last u = CHR 0x0A \<and> token p (butlast u))"

definition classes_present :: "string \<Rightarrow> nat" where
  "classes_present u =
     length (filter (\<lambda>p. list_ex p u) [is_lower, is_upper, is_digit, is_sep])"

definition reputation_points :: "string \<Rightarrow> age_lookup \<Rightarrow> int" where
  "reputation_points u w =
     (case w of Age d \<Rightarrow> if d > 365 then 20 else 0 | _ \<Rightarrow> 0)
     + (if name_dot_name u then 15 else if token is_alpha u \<or> token_nl is_alpha u then 10 else 0)
     + (if 6 \<le> length u \<and> length u \<le> 24 then 10 else 0)
     + 5 * int (classes_present u)"

section \<open>Identity\<close>

definition birth_year_pattern :: rx where
  \<comment> \<open>\<^verbatim>\<open>(19|20)\d{2}\<close>\<close>
  "birth_year_pattern =
     Seq (Alt (Seq (chr CHR ''1'') (chr CHR ''9'')) (Seq (chr CHR ''2'') (chr CHR ''0'')))
         (Seq (Cls is_digit) (Cls is_digit))"

record possible_name =
  first_name :: string
  last_name :: "string option"
  full_name :: string

record basic_info =
  possible_birth_year :: "string option"
  possible_name :: "possible_name option"

definition clean_part :: "string \<Rightarrow> string" where
  \<comment> \<open>\<^verbatim>\<open>re.sub(r'[0-9_]', '', part)\<close>\<close>
  "clean_part part = filter (\<lambda>c. \<not> (is_digit c \<or> c = CHR ''_'')) part"

fun scan_parts ::
  "(char \<Rightarrow> string) \<Rightarrow> string list \<Rightarrow> string option \<times> string list \<Rightarrow>
   string option \<times> string list"
  where
  \<comment> \<open>the loop over \<^verbatim>\<open>username_parts\<close>; the state is the birth year stored so far and \<^verbatim>\<open>name_parts\<close>\<close>
  "scan_parts title [] st = st"
| "scan_parts title (part # rest) (year, name_parts) =
     (let year_match = re_search birth_year_pattern part;
          year' = (case year_match of Some y \<Rightarrow> Some y | None \<Rightarrow> year);
          part' = (case year_match of Some y \<Rightarrow> remove_all y part | None \<Rightarrow> part);
          cleaned_part = clean_part part'
      in scan_parts title rest
           (year', if cleaned_part \<noteq> [] then name_parts @ [capitalize title cleaned_part]
                   else name_parts))"

definition name_parts :: "(char \<Rightarrow> string) \<Rightarrow> string \<Rightarrow> string list" where
  "name_parts title username =
     snd (scan_parts title (split_on CHR ''.'' username) (None, []))"

definition basic_info :: "(char \<Rightarrow> string) \<Rightarrow> string \<Rightarrow> basic_info" where
  \<comment> \<open>\<^verbatim>\<open>personal_info["basic_info"]\<close> of \<^verbatim>\<open>analyze_personal_info\<close>\<close>
  "basic_info title username =
     (let username_parts = split_on CHR ''.'' username
      in if length username_parts \<ge> 1
         then (let (year, name_parts) = scan_parts title username_parts (None, [])
               in \<lparr> possible_birth_year = year,
                    possible_name =
                      (if name_parts \<noteq> []
                       then Some \<lparr> first_name = hd name_parts,
                                   last_name = (if length name_parts > 1
                                                then Some (last name_parts) else None),
                                   full_name = join '' '' name_parts \<rparr>
                       else None) \<rparr>)
         else \<lparr> possible_birth_year = None, possible_name = None \<rparr>)"

text \<open>
  The birth year in the words of the specification: a year is \<open>19\<close> or \<open>20\<close> and two
  digits, \<open>first_year\<close> is the first such substring of a fragment.
  \<open>first_birth_year\<close> takes it from the first fragment that has one,
  \<open>last_birth_year\<close> from the last.
\<close>

definition is_year :: "string \<Rightarrow> bool" where
  "is_year y =
     (length y = 4 \<and> (take 2 y = ''19'' \<or> take 2 y = ''20'') \<and>
      is_digit (y ! 2) \<and> is_digit (y ! 3))"

fun first_year :: "string \<Rightarrow> string option" where
  "first_year [] = None"
| "first_year (c # cs) =
     (if is_year (take 4 (c # cs)) then Some (take 4 (c # cs)) else first_year cs)"

definition first_birth_year :: "string list \<Rightarrow> string option" where
  "first_birth_year parts =
     (let fs = filter (\<lambda>p. first_year p \<noteq> None) parts
      in if fs = [] then None else first_year (hd fs))"

definition last_birth_year :: "string list \<Rightarrow> string option" where
  "last_birth_year parts =
     (let fs = filter (\<lambda>p. first_year p \<noteq> None) parts
      in if fs = [] then None else first_year (last fs))"

definition strip_year :: "string \<Rightarrow> string" where
  "strip_year part = (case first_year part of Some y \<Rightarrow> remove_all y part | None \<Rightarrow> part)"

definition name_fragments :: "(char \<Rightarrow> string) \<Rightarrow> string list \<Rightarrow> string list" where
  "name_fragments title parts =
     map (capitalize title)
       (filter (\<lambda>p. p \<noteq> []) (map (\<lambda>p. clean_part (strip_year p)) parts))"

section \<open>Professional score\<close>













section \<open>Security risks\<close>











section \<open>Exceptions and dictionaries\<close>

text \<open>
  A call that can raise returns \<open>error + 'a\<close>, with \<open>Inl\<close> for the exception. A
  \<^verbatim>\<open>try\<close> block with its \<^verbatim>\<open>except Exception\<close> handler is \<open>try_except\<close>; a \<^verbatim>\<open>for\<close> loop
  whose body can raise is \<open>for_each\<close>, which stops at the first exception. A \<^verbatim>\<open>dict\<close>
  is an association list in insertion order, \<^verbatim>\<open>d[k] = v\<close> is \<open>AList.update k v d\<close>.
\<close>

datatype error =
    IndexError | AttributeError | RequestException | WhoisError | DnsError
  | FileNotFoundError | OSError

definition try_except :: "error + 'a \<Rightarrow> (error \<Rightarrow> error + 'a) \<Rightarrow> error + 'a" where
  "try_except body handler = (case body of Inl e \<Rightarrow> handler e | Inr v \<Rightarrow> Inr v)"

fun for_each :: "('a \<Rightarrow> 's \<Rightarrow> error + 's) \<Rightarrow> 'a list \<Rightarrow> 's \<Rightarrow> error + 's" where
  "for_each body [] s = Inr s"
| "for_each body (x # xs) s =
     (case body x s of Inl e \<Rightarrow> Inl e | Inr s' \<Rightarrow> for_each body xs s')"

definition index :: "'a list \<Rightarrow> nat \<Rightarrow> error + 'a" where
  \<comment> \<open>\<^verbatim>\<open>xs[i]\<close> for \<open>i \<ge> 0\<close>\<close>
  "index xs i = (if i < length xs then Inr (xs ! i) else Inl IndexError)"

section \<open>Command line\<close>


record investigator =
  inv_email :: string
  inv_username :: string
  inv_domain :: string

text \<open>
  What the run depends on besides the arguments: whether the loading of the language
  models in \<^verbatim>\<open>__init__\<close> raises; whether the terminal output of each phase of
  \<^verbatim>\<open>run_investigation\<close> raises (the banner and header, the live status around each
  task, the panels and the progress bar before the report is saved, the closing
  message); how each of the four analysis tasks ends; whether the report file of a
  given name can be opened and written; and the time stamp that goes into that name.
\<close>

datatype phase = Banner | Progress | Results | Saved

datatype task = Name_patterns | Reputation | Social_presence | Personal_info

record world =
  load_models :: "error + unit"
  render :: "phase \<Rightarrow> error + unit"
  run_analysis :: "task \<Rightarrow> error + unit"
  write_report :: "string \<Rightarrow> error + unit"
  timestamp :: string

definition init :: "world \<Rightarrow> string \<Rightarrow> error + investigator" where
  \<comment> \<open>\<^verbatim>\<open>SherlockMail.__init__\<close>: the fields taken from the address, then the models\<close>
  "init w email =
     (case index (split_on CHR ''@'' email) 0 of
        Inl e \<Rightarrow> Inl e
      | Inr username \<Rightarrow>
          (case index (split_on CHR ''@'' email) 1 of
             Inl e \<Rightarrow> Inl e
           | Inr domain \<Rightarrow>
               (case load_models w of
                  Inl e \<Rightarrow> Inl e
                | Inr u \<Rightarrow>
                    Inr \<lparr> inv_email = email, inv_username = username,
                          inv_domain = domain \<rparr>)))"




datatype run = Exit int | Raised error | Completed investigator








section \<open>Probing the platforms\<close>

text \<open>
  \<open>soup.title\<close> is \<^verbatim>\<open>None\<close>, or a tag whose \<^verbatim>\<open>.string\<close> is a string or \<^verbatim>\<open>None\<close> (a title
  tag that is empty or has several children). \<open>soup_find tag cls\<close> is the stripped
  text of \<^verbatim>\<open>soup.find(tag, {'class': cls})\<close>, if there is such an element.
\<close>

datatype soup_title = No_title | Title "string option"

record response =
  status_code :: int
  body_text :: string
  soup_title :: soup_title
  soup_find :: "string \<Rightarrow> string \<Rightarrow> string option"

type_synonym http_get = "string \<Rightarrow> error + response"

type_synonym profile = "(string \<times> string) list"

definition negative_terms :: "string list" where
  "negative_terms = [''not found'', ''error'', ''404'', ''page doesn't exist'']"

definition set_found :: "string \<Rightarrow> string option \<Rightarrow> profile \<Rightarrow> profile" where
  \<comment> \<open>\<^verbatim>\<open>if element: profile[key] = element.text.strip()\<close>\<close>
  "set_found key element p = (case element of None \<Rightarrow> p | Some v \<Rightarrow> AList.update key v p)"

definition extract_fields :: "string \<Rightarrow> response \<Rightarrow> profile \<Rightarrow> profile" where
  \<comment> \<open>the platform-specific data extraction\<close>
  "extract_fields platform r p =
     (if platform = ''GitHub'' then
        set_found ''bio'' (soup_find r ''div'' ''p-note user-profile-bio'')
          (set_found ''contributions'' (soup_find r ''h2'' ''f4 text-normal mb-2'')
            (set_found ''repos'' (soup_find r ''span'' ''Counter'') p))
      else if platform = ''LinkedIn'' then
        set_found ''location''
            (soup_find r ''span'' ''text-body-small inline t-black--light break-words'')
          (set_found ''headline'' (soup_find r ''div'' ''text-body-medium'') p)
      else if platform = ''Twitter'' then
        set_found ''bio'' (soup_find r ''div'' ''bio'')
          (set_found ''followers'' (soup_find r ''span'' ''followers-count'') p)
      else p)"

definition title_lower :: "string option \<Rightarrow> error + string" where
  \<comment> \<open>\<^verbatim>\<open>title.lower()\<close>, which raises when \<^verbatim>\<open>title\<close> is \<^verbatim>\<open>None\<close>\<close>
  "title_lower title = (case title of None \<Rightarrow> Inl AttributeError | Some t \<Rightarrow> Inr (lower t))"

definition probe_url :: "http_get \<Rightarrow> string \<Rightarrow> string \<Rightarrow> string \<Rightarrow> error + profile option"
  where
  \<comment> \<open>the body of the \<^verbatim>\<open>try\<close> for one URL: \<open>Some\<close> the profile stored when the loop breaks\<close>
  "probe_url get username platform url =
     (case get url of
        Inl e \<Rightarrow> Inl e
      | Inr r \<Rightarrow>
          if status_code r = 200
          then (let title = (case soup_title r of No_title \<Rightarrow> Some [] | Title t \<Rightarrow> t)
                in case title_lower title of
                     Inl e \<Rightarrow> Inl e
                   | Inr low \<Rightarrow>
                       if \<not> list_ex (\<lambda>term. contains term low) negative_terms
                       then Inr (Some (extract_fields platform r
                              [(''url'', url), (''status'', ''Found''),
                               (''username'', username), (''title'', the title)]))
                       else Inr None)
          else Inr None)"

fun probe_urls ::
  "http_get \<Rightarrow> string \<Rightarrow> string \<Rightarrow> string option list \<Rightarrow> (string \<times> profile) list \<Rightarrow>
   error + (string \<times> profile) list" where
  \<comment> \<open>\<^verbatim>\<open>for url in urls\<close>, with its \<^verbatim>\<open>continue\<close> and \<^verbatim>\<open>break\<close>\<close>
  "probe_urls get username platform [] profiles = Inr profiles"
| "probe_urls get username platform (None # urls) profiles =
     probe_urls get username platform urls profiles"
| "probe_urls get username platform (Some url # urls) profiles =
     (case try_except (probe_url get username platform url) (\<lambda>e. Inr None) of
        Inl e \<Rightarrow> Inl e
      | Inr None \<Rightarrow> probe_urls get username platform urls profiles
      | Inr (Some p) \<Rightarrow> Inr (AList.update platform p profiles))"

definition social_platforms :: "string \<Rightarrow> (string \<times> string option list) list" where
  "social_platforms username =
     (let username_parts = split_on CHR ''.'' username;
          two = (\<lambda>url. if length username_parts > 1 then Some url else None);
          p0 = hd username_parts;
          p1 = last username_parts
      in [(''LinkedIn'',
            [Some (''https://www.linkedin.com/in/'' @ username),
             Some (''https://www.linkedin.com/in/'' @ join ''-'' username_parts),
             two (''https://www.linkedin.com/in/'' @ p0 @ ''-'' @ p1)]),
          (''Twitter'',
            [Some (''https://twitter.com/'' @ username),
             two (''https://twitter.com/'' @ p0 @ ''_'' @ p1)]),
          (''GitHub'',
            [Some (''https://github.com/'' @ username),
             two (''https://github.com/'' @ p0 @ p1)]),
          (''Instagram'',
            [Some (''https://www.instagram.com/'' @ username),
             two (''https://www.instagram.com/'' @ p0 @ ''_'' @ p1)]),
          (''Medium'',
            [Some (''https://medium.com/@'' @ username),
             two (''https://medium.com/@'' @ p0 @ ''.'' @ p1)]),
          (''Dev.to'',
            [Some (''https://dev.to/'' @ username),
             two (''https://dev.to/'' @ p0 @ p1)]),
          (''Stack Overflow'',
            [Some (''https://stackoverflow.com/users/'' @ username),
             two (''https://stackoverflow.com/users/'' @ join ''-'' username_parts)]),
          (''Behance'',
            [Some (''https://www.behance.net/'' @ username),
             two (''https://www.behance.net/'' @ p0 @ p1)]),
          (''Dribbble'',
            [Some (''https://dribbble.com/'' @ username),
             two (''https://dribbble.com/'' @ p0 @ p1)]),
          (''Facebook'',
            [Some (''https://www.facebook.com/'' @ username),
             two (''https://www.facebook.com/'' @ join ''.'' username_parts)]),
          (''YouTube'',
            [Some (''https://www.youtube.com/@'' @ username),
             two (''https://www.youtube.com/@'' @ p0 @ p1)]),
          (''Reddit'',
            [Some (''https://www.reddit.com/user/'' @ username),
             two (''https://www.reddit.com/user/'' @ p0 @ ''_'' @ p1)]),
          (''Kaggle'',
            [Some (''https://www.kaggle.com/'' @ username),
             two (''https://www.kaggle.com/'' @ p0 @ p1)]),
          (''PyPI'',
            [Some (''https://pypi.org/user/'' @ username),
             two (''https://pypi.org/user/'' @ p0 @ p1)])])"

definition social_profiles :: "http_get \<Rightarrow> string \<Rightarrow> error + (string \<times> profile) list" where
  \<comment> \<open>\<^verbatim>\<open>personal_info["social_profiles"]\<close> of \<^verbatim>\<open>analyze_personal_info\<close>\<close>
  "social_profiles get username =
     for_each (\<lambda>(platform, urls) profiles. probe_urls get username platform urls profiles)
       (social_platforms username) []"

section \<open>Social footprint\<close>

record platform_entry =
  found :: bool
  entry_url :: "string option"
  entry_status :: string

record footprint =
  platforms :: "(string \<times> platform_entry) list"
  visibility_score :: real
  footprint_risk_level :: level
  footprint_recommendations :: "string list"

definition footprint_platforms :: "string \<Rightarrow> string \<Rightarrow> (string \<times> string) list" where
  "footprint_platforms email username =
     [(''GitHub'', ''https://api.github.com/search/users?q='' @ email),
      (''LinkedIn'', ''https://www.linkedin.com/pub/dir/?email='' @ email),
      (''Twitter'', ''https://twitter.com/'' @ username),
      (''Instagram'', ''https://www.instagram.com/'' @ username),
      (''Facebook'', ''https://www.facebook.com/'' @ username),
      (''Medium'', ''https://medium.com/@'' @ username),
      (''Dev.to'', ''https://dev.to/'' @ username),
      (''Stack Overflow'', ''https://stackoverflow.com/users/'' @ username)]"

definition active :: "string \<Rightarrow> platform_entry" where
  "active url = \<lparr> found = True, entry_url = Some url, entry_status = ''Active'' \<rparr>"

definition not_found :: platform_entry where
  "not_found = \<lparr> found = False, entry_url = None, entry_status = ''Not found or private'' \<rparr>"

definition probe_platform :: "http_get \<Rightarrow> string \<times> string \<Rightarrow> footprint \<Rightarrow> error + footprint"
  where
  \<comment> \<open>one turn of the loop of \<^verbatim>\<open>analyze_social_footprint\<close>\<close>
  "probe_platform get = (\<lambda>(platform, url) fp.
     try_except
       (case get url of
          Inl e \<Rightarrow> Inl e
        | Inr r \<Rightarrow>
            if status_code r = 200
            then Inr (fp\<lparr> platforms := AList.update platform (active url) (platforms fp),
                          visibility_score := visibility_score fp + 12.5 \<rparr>)
            else Inr fp)
       (\<lambda>e. Inr (fp\<lparr> platforms := AList.update platform not_found (platforms fp) \<rparr>)))"

definition visibility_level :: "footprint \<Rightarrow> footprint" where
  "visibility_level fp =
     (if visibility_score fp \<ge> 75
      then fp\<lparr> footprint_risk_level := High,
               footprint_recommendations := footprint_recommendations fp @
                 [''Consider reducing public social media presence''] \<rparr>
      else if visibility_score fp \<ge> 50
      then fp\<lparr> footprint_risk_level := Medium,
               footprint_recommendations := footprint_recommendations fp @
                 [''Review privacy settings on social media''] \<rparr>
      else fp\<lparr> footprint_recommendations := footprint_recommendations fp @
                 [''Good privacy practices detected''] \<rparr>)"

definition analyze_social_footprint :: "http_get \<Rightarrow> string \<Rightarrow> string \<Rightarrow> error + footprint" where
  "analyze_social_footprint get email username =
     (case for_each (probe_platform get) (footprint_platforms email username)
             \<lparr> platforms = [], visibility_score = 0, footprint_risk_level = Low,
               footprint_recommendations = [] \<rparr> of
        Inl e \<Rightarrow> Inl e
      | Inr fp \<Rightarrow> Inr (visibility_level fp))"

section \<open>Domain analysis\<close>

text \<open>
  What \<^verbatim>\<open>whois.whois\<close> returns: the creation date is \<^verbatim>\<open>None\<close>, one date or a list of
  dates (each date as \<^verbatim>\<open>str\<close> prints it); \<open>org\<close> and \<open>country\<close> are \<open>None\<close> when
  the attribute is missing or \<^verbatim>\<open>None\<close>. \<open>resolve name rtype\<close> is
  \<^verbatim>\<open>dns.resolver.resolve\<close> with the records already turned into strings.
\<close>

datatype creation = No_date | One_date string | Dates "string list"

record whois_entry =
  creation_date :: creation
  org :: "string option"
  country :: "string option"

datatype record_type = MX | TXT

type_synonym whois_lookup = "string \<Rightarrow> error + whois_entry"

type_synonym dns_resolve = "string \<Rightarrow> record_type \<Rightarrow> error + string list"

datatype pyval = PNone | PStr string | PList "string list"

fun truthy :: "pyval \<Rightarrow> bool" where
  \<comment> \<open>\<^verbatim>\<open>bool(v)\<close>\<close>
  "truthy PNone = False"
| "truthy (PStr s) = (s \<noteq> [])"
| "truthy (PList xs) = (xs \<noteq> [])"

definition dict_get :: "(string \<times> pyval) list \<Rightarrow> string \<Rightarrow> pyval" where
  \<comment> \<open>\<^verbatim>\<open>d.get(k)\<close>\<close>
  "dict_get d k = (case map_of d k of None \<Rightarrow> PNone | Some v \<Rightarrow> v)"

definition next_containing :: "string \<Rightarrow> string list \<Rightarrow> pyval" where
  \<comment> \<open>\<^verbatim>\<open>next((r for r in records if marker in r), None)\<close>\<close>
  "next_containing marker records =
     (case List.find (contains marker) records of None \<Rightarrow> PNone | Some r \<Rightarrow> PStr r)"

record email_security =
  has_spf :: bool
  has_dmarc :: bool
  mx_providers :: "string list"

record domain_profile =
  dp_name :: string
  dp_creation_date :: string
  dp_organization :: "string option"
  dp_country :: "string option"
  dp_dns_info :: "(string \<times> pyval) list"
  dp_email_security :: email_security

datatype domain_result = Domain domain_profile | Domain_error string string

definition mx_lookup :: "dns_resolve \<Rightarrow> string \<Rightarrow> (string \<times> pyval) list \<Rightarrow> error + (string \<times> pyval) list"
  where
  "mx_lookup resolve domain dns_info =
     try_except
       (case resolve domain MX of
          Inl e \<Rightarrow> Inl e
        | Inr mx_records \<Rightarrow> Inr (AList.update ''mx_records'' (PList mx_records) dns_info))
       (\<lambda>e. Inr (AList.update ''mx_records'' (PList []) dns_info))"

definition dmarc_lookup :: "dns_resolve \<Rightarrow> string \<Rightarrow> (string \<times> pyval) list \<Rightarrow> error + (string \<times> pyval) list"
  where
  "dmarc_lookup resolve domain dns_info =
     try_except
       (case resolve (''_dmarc.'' @ domain) TXT of
          Inl e \<Rightarrow> Inl e
        | Inr dmarc_records \<Rightarrow>
            Inr (AList.update ''dmarc_record'' (next_containing ''v=DMARC1'' dmarc_records)
                  dns_info))
       (\<lambda>e. Inr (AList.update ''dmarc_record'' PNone dns_info))"

definition txt_lookup :: "dns_resolve \<Rightarrow> string \<Rightarrow> (string \<times> pyval) list \<Rightarrow> error + (string \<times> pyval) list"
  where
  "txt_lookup resolve domain dns_info =
     try_except
       (case resolve domain TXT of
          Inl e \<Rightarrow> Inl e
        | Inr txt_records \<Rightarrow>
            dmarc_lookup resolve domain
              (AList.update ''spf_record'' (next_containing ''v=spf1'' txt_records)
                (AList.update ''txt_records'' (PList txt_records) dns_info)))
       (\<lambda>e. Inr (AList.update ''txt_records'' (PList []) dns_info))"

definition creation_str :: "creation \<Rightarrow> error + string" where
  \<comment> \<open>\<^verbatim>\<open>str(d[0] if isinstance(d, list) else d)\<close>\<close>
  "creation_str d =
     (case d of
        No_date \<Rightarrow> Inr ''None''
      | One_date x \<Rightarrow> Inr x
      | Dates xs \<Rightarrow> (case index xs 0 of Inl e \<Rightarrow> Inl e | Inr x \<Rightarrow> Inr x))"

definition mx_list :: "pyval \<Rightarrow> string list" where
  "mx_list v = (case v of PList xs \<Rightarrow> xs | _ \<Rightarrow> [])"

definition domain_analysis :: "whois_lookup \<Rightarrow> dns_resolve \<Rightarrow> string \<Rightarrow> error + domain_result"
  where
  \<comment> \<open>\<^verbatim>\<open>personal_info["domain_analysis"]\<close> of \<^verbatim>\<open>analyze_personal_info\<close>\<close>
  "domain_analysis whois resolve domain =
     try_except
       (case whois domain of
          Inl e \<Rightarrow> Inl e
        | Inr domain_info \<Rightarrow>
            (case mx_lookup resolve domain [] of
               Inl e \<Rightarrow> Inl e
             | Inr dns1 \<Rightarrow>
                 (case txt_lookup resolve domain dns1 of
                    Inl e \<Rightarrow> Inl e
                  | Inr dns_info \<Rightarrow>
                      (case creation_str (creation_date domain_info) of
                         Inl e \<Rightarrow> Inl e
                       | Inr created \<Rightarrow>
                           Inr (Domain
                             \<lparr> dp_name = domain,
                               dp_creation_date = created,
                               dp_organization = org domain_info,
                               dp_country = country domain_info,
                               dp_dns_info = dns_info,
                               dp_email_security =
                                 \<lparr> has_spf = truthy (dict_get dns_info ''spf_record''),
                                   has_dmarc = truthy (dict_get dns_info ''dmarc_record''),
                                   mx_providers =
                                     (case map_of dns_info ''mx_records'' of
                                        None \<Rightarrow> [] | Some v \<Rightarrow> mx_list v) \<rparr> \<rparr>)))))
       (\<lambda>e. Inr (Domain_error domain ''Could not fetch domain information''))"

section \<open>The probes and the domain profile in the words of the specification\<close>

text \<open>
  \<open>positive_match\<close> is the validity test on the answer for one URL as the code makes
  it: status 200, a title that can be read (no title tag reads as the empty title),
  and none of the negative markers in the lower-cased title. \<open>stated_match\<close> is the
  test as the specification words it: status 200 and none of the markers in the title
  or the body. \<open>candidates\<close> are the URLs of a platform in their declared order,
  \<open>taken\<close> is the profile stored for a URL that passes. \<open>footprint_entry\<close> is
  what one turn of the loop of \<open>analyze_social_footprint\<close> stores for its URL.
\<close>

definition readable_title :: "response \<Rightarrow> string option" where
  "readable_title r = (case soup_title r of No_title \<Rightarrow> Some [] | Title t \<Rightarrow> t)"

definition positive_match :: "error + response \<Rightarrow> bool" where
  "positive_match x =
     (case x of
        Inl e \<Rightarrow> False
      | Inr r \<Rightarrow>
          status_code r = 200 \<and>
          (case readable_title r of
             None \<Rightarrow> False
           | Some t \<Rightarrow> \<not> list_ex (\<lambda>m. contains m (lower t)) negative_terms))"

definition title_text :: "response \<Rightarrow> string" where
  "title_text r = (case soup_title r of Title (Some t) \<Rightarrow> t | _ \<Rightarrow> [])"

definition stated_match :: "error + response \<Rightarrow> bool" where
  "stated_match x =
     (case x of
        Inl e \<Rightarrow> False
      | Inr r \<Rightarrow>
          status_code r = 200 \<and>
          \<not> list_ex (\<lambda>m. contains m (title_text r) \<or> contains m (body_text r)) negative_terms)"

definition candidates :: "string option list \<Rightarrow> string list" where
  "candidates urls = List.map_filter (\<lambda>u. u) urls"

definition taken :: "http_get \<Rightarrow> string \<Rightarrow> string \<Rightarrow> string \<Rightarrow> profile" where
  "taken get username platform url =
     (case probe_url get username platform url of Inr (Some p) \<Rightarrow> p | _ \<Rightarrow> [])"

definition first_match :: "http_get \<Rightarrow> string option list \<Rightarrow> string option" where
  "first_match get urls = List.find (\<lambda>u. positive_match (get u)) (candidates urls)"

definition footprint_entry :: "http_get \<Rightarrow> string \<Rightarrow> platform_entry option" where
  "footprint_entry get url =
     (case get url of
        Inl e \<Rightarrow> Some not_found
      | Inr r \<Rightarrow> if status_code r = 200 then Some (active url) else None)"

text \<open>The dictionary \<^verbatim>\<open>dns_info\<close> once the MX, TXT and DMARC lookups are done.\<close>

definition dns_of :: "dns_resolve \<Rightarrow> string \<Rightarrow> (string \<times> pyval) list" where
  "dns_of resolve domain =
     (case txt_lookup resolve domain
             (AList.update ''mx_records''
               (PList (case resolve domain MX of Inl e \<Rightarrow> [] | Inr xs \<Rightarrow> xs)) []) of
        Inr d \<Rightarrow> d | Inl e \<Rightarrow> [])"

text \<open>Answers used as examples: one fixed response for every URL, and no answer at all.\<close>

definition plain_response :: "int \<Rightarrow> soup_title \<Rightarrow> string \<Rightarrow> response" where
  "plain_response c t b =
     \<lparr> status_code = c, body_text = b, soup_title = t, soup_find = (\<lambda>tag cls. None) \<rparr>"

definition serve :: "response \<Rightarrow> http_get" where
  "serve r url = Inr r"

definition unreachable :: http_get where
  "unreachable url = Inl RequestException"

definition example_site :: http_get where
  "example_site url =
     (if url = ''https://github.com/john.doe''
      then Inr (plain_response 404 (Title (Some ''Page not found'')) ''Not Found'')
      else Inr (plain_response 200 (Title (Some ''johndoe (John Doe)'')) ''John Doe''))"

definition no_whois :: whois_lookup where
  "no_whois d = Inl WhoisError"

definition example_whois :: whois_lookup where
  "example_whois d =
     Inr \<lparr> creation_date = Dates [''1995-08-14 04:00:00''], org = Some ''Example Org'',
           country = None \<rparr>"

definition example_dns :: dns_resolve where
  "example_dns n t =
     (if t = MX then Inr [''mail.example.com.'']
      else if n = ''example.com'' then Inr [''v=spf1 include:_spf.example.com ~all'']
      else Inl DnsError)"

section \<open>Properties\<close>

subsection \<open>Regular expressions\<close>

lemma after_run_stop:
  "t \<in> set (after_run p s) \<Longrightarrow> t = [] \<or> \<not> p (hd t) \<Longrightarrow> t = dropWhile p s"
  by (induction s) (auto split: if_splits)

lemma after_run_dropWhile: "dropWhile p s \<in> set (after_run p s)"
  by (induction s) auto

lemma after_run_nonempty: "after_run p s \<noteq> []"
  by (induction s) auto

lemma residuals_Plus_stop:
  "t \<in> set (residuals (Plus p) s) \<Longrightarrow> t = [] \<or> \<not> p (hd t) \<Longrightarrow>
   t = dropWhile p s \<and> takeWhile p s \<noteq> []"
  by (cases s) (auto split: if_splits dest: after_run_stop)

lemma residuals_Plus_dropWhile:
  "takeWhile p s \<noteq> [] \<Longrightarrow> dropWhile p s \<in> set (residuals (Plus p) s)"
  by (cases s) (auto split: if_splits simp: after_run_dropWhile)

lemma re_match_Seq:
  "re_match (Seq a b) s \<longleftrightarrow> (\<exists>t \<in> set (residuals a s). re_match b t)"
  by (auto simp: re_match_def)

lemma re_found_Cls: "re_found (Cls p) u \<longleftrightarrow> list_ex p u"
  by (induction u) (auto simp: re_found_def)

subsection \<open>Reputation\<close>

lemma not_alpha_dot: "\<not> is_alpha CHR ''.''"
  by (simp add: is_alpha_def is_lower_def is_upper_def)

lemma not_alpha_nl: "\<not> is_alpha (CHR 0x0A)"
  by (simp add: is_alpha_def is_lower_def is_upper_def)

lemma re_match_dot_name:
  "re_match (Seq (chr CHR ''.'') (Plus is_alpha)) t \<longleftrightarrow>
     (case t of d # c # _ \<Rightarrow> d = CHR ''.'' \<and> is_alpha c | _ \<Rightarrow> False)"
  by (auto simp: re_match_def chr_def after_run_nonempty split: list.splits)

lemma re_match_professional: "re_match professional_pattern u \<longleftrightarrow> name_dot_name u"
proof
  assume "re_match professional_pattern u"
  then obtain t where t: "t \<in> set (residuals (Plus is_alpha) u)"
    and m: "re_match (Seq (chr CHR ''.'') (Plus is_alpha)) t"
    by (auto simp: professional_pattern_def re_match_Seq)
  from m have "t \<noteq> [] \<and> hd t = CHR ''.''"
    by (auto simp: re_match_dot_name split: list.splits)
  then have "t = [] \<or> \<not> is_alpha (hd t)"
    by (simp add: not_alpha_dot)
  with t have "t = dropWhile is_alpha u \<and> takeWhile is_alpha u \<noteq> []"
    by (rule residuals_Plus_stop)
  with m show "name_dot_name u"
    by (simp add: name_dot_name_def re_match_dot_name)
next
  assume "name_dot_name u"
  then have n: "takeWhile is_alpha u \<noteq> []"
    and m: "re_match (Seq (chr CHR ''.'') (Plus is_alpha)) (dropWhile is_alpha u)"
    by (simp_all add: name_dot_name_def re_match_dot_name)
  from n have "dropWhile is_alpha u \<in> set (residuals (Plus is_alpha) u)"
    by (rule residuals_Plus_dropWhile)
  with m show "re_match professional_pattern u"
    by (auto simp: professional_pattern_def re_match_Seq)
qed

lemma token_takeWhile:
  "token p u \<longleftrightarrow> takeWhile p u \<noteq> [] \<and> dropWhile p u = []"
  by (cases u) (auto simp: token_def list_all_iff)

lemma token_nl_takeWhile:
  assumes nl: "\<not> p (CHR 0x0A)"
  shows "token_nl p u \<longleftrightarrow> takeWhile p u \<noteq> [] \<and> dropWhile p u = [CHR 0x0A]"
proof
  assume "token_nl p u"
  then have u: "u = butlast u @ [CHR 0x0A]" and a: "token p (butlast u)"
    by (auto simp: token_nl_def dest: append_butlast_last_id [symmetric])
  from a have b: "butlast u \<noteq> []" "\<forall>x \<in> set (butlast u). p x"
    by (auto simp: token_def list_all_iff)
  have "takeWhile p (butlast u @ [CHR 0x0A]) = butlast u"
    using b nl by simp
  moreover have "dropWhile p (butlast u @ [CHR 0x0A]) = [CHR 0x0A]"
    using b nl by simp
  ultimately show "takeWhile p u \<noteq> [] \<and> dropWhile p u = [CHR 0x0A]"
    using u b by metis
next
  assume h: "takeWhile p u \<noteq> [] \<and> dropWhile p u = [CHR 0x0A]"
  have "u = takeWhile p u @ dropWhile p u" by simp
  with h have u: "u = takeWhile p u @ [CHR 0x0A]" by simp
  then have "butlast u = takeWhile p u" "last u = CHR 0x0A" "u \<noteq> []"
    by (metis butlast_snoc, metis last_snoc, metis snoc_eq_iff_butlast)
  with h show "token_nl p u"
    by (auto simp: token_nl_def token_def list_all_iff dest: set_takeWhileD)
qed

lemma re_match_Plus_Eol:
  assumes nl: "\<not> p (CHR 0x0A)"
  shows "re_match (Seq (Plus p) Eol) u \<longleftrightarrow> token p u \<or> token_nl p u"
proof
  assume "re_match (Seq (Plus p) Eol) u"
  then obtain t where t: "t \<in> set (residuals (Plus p) u)"
    and m: "t = [] \<or> t = [CHR 0x0A]"
    by (auto simp: re_match_Seq re_match_def split: if_splits)
  from m have "t = [] \<or> \<not> p (hd t)"
    using nl by auto
  with t have "t = dropWhile p u \<and> takeWhile p u \<noteq> []"
    by (rule residuals_Plus_stop)
  with m show "token p u \<or> token_nl p u"
    by (auto simp: token_takeWhile token_nl_takeWhile [of p, OF nl])
next
  assume "token p u \<or> token_nl p u"
  then have n: "takeWhile p u \<noteq> []"
    and d: "dropWhile p u = [] \<or> dropWhile p u = [CHR 0x0A]"
    by (auto simp: token_takeWhile token_nl_takeWhile [of p, OF nl])
  from n have "dropWhile p u \<in> set (residuals (Plus p) u)"
    by (rule residuals_Plus_dropWhile)
  moreover from d have "re_match Eol (dropWhile p u)"
    by (auto simp: re_match_def)
  ultimately show "re_match (Seq (Plus p) Eol) u"
    by (auto simp: re_match_Seq)
qed

lemma re_match_simple:
  "re_match simple_pattern u \<longleftrightarrow> token is_alpha u \<or> token_nl is_alpha u"
  unfolding simple_pattern_def by (rule re_match_Plus_Eol [of is_alpha, OF not_alpha_nl])

lemma char_types_classes: "char_types u = int (classes_present u)"
  by (simp add: char_types_def classes_present_def re_found_Cls)

lemma reputation_total_points: "fst (reputation_total u w) = reputation_points u w"
  by (cases w)
    (simp_all add: reputation_total_def reputation_variety_def reputation_length_def
      reputation_pattern_def reputation_age_def reputation_points_def
      re_match_professional re_match_simple char_types_classes)

lemma classes_present_le: "classes_present u \<le> 4"
  by (simp add: classes_present_def)

lemma reputation_points_le: "reputation_points u w \<le> 65"
  using classes_present_le [of u]
  by (cases w) (simp_all add: reputation_points_def)

text \<open>
  C1, as the code has it: the score is the sum of the four factors, clamped to 100, for
  every username and every outcome of the WHOIS lookup. The label returned is a risk
  level, so it runs against the score: Low above 70, Medium above 40, High otherwise.
\<close>

theorem reputation_score_formula:
  "score (analyze_email_reputation u w) = min (reputation_points u w) 100 \<and>
   risk_level (analyze_email_reputation u w) =
     (if reputation_points u w > 70 then Low
      else if reputation_points u w > 40 then Medium else High)"
  by (simp add: analyze_email_reputation_def Let_def reputation_total_points)

theorem reputation_score_formula_witness:
  "reputation_points ''john.doe2019'' (Age 4000) = 60 \<and>
   score (analyze_email_reputation ''john.doe2019'' (Age 4000)) = 60 \<and>
   risk_level (analyze_email_reputation ''john.doe2019'' (Age 4000)) = Medium"
proof -
  have "reputation_points ''john.doe2019'' (Age 4000) = 60"
    by code_simp
  then show ?thesis
    using reputation_score_formula [of "''john.doe2019''" "Age 4000"] by simp
qed

text \<open>
  C1 as stated fails: for the username \<open>a\<close> with no WHOIS answer the score is 15, and
  the level returned is High where the claim has Low. And a letter token followed by a
  newline earns the 10 points of the simple pattern though it is not alphabetic.
\<close>

theorem reputation_level_counterexample:
  "score (analyze_email_reputation ''a'' Lookup_raises) = 15 \<and>
   risk_level (analyze_email_reputation ''a'' Lookup_raises) \<noteq>
     (if score (analyze_email_reputation ''a'' Lookup_raises) > 70 then High
      else if score (analyze_email_reputation ''a'' Lookup_raises) > 40 then Medium
      else Low) \<and>
   \<not> list_all is_alpha (''abc'' @ [CHR 0x0A]) \<and>
   ''Simple email pattern'' \<in>
     set (factors (analyze_email_reputation (''abc'' @ [CHR 0x0A]) Lookup_raises))"
  by code_simp

text \<open>
  C9: the raw total never exceeds 65 = 20 + 15 + 10 + 20, so the clamp to 100 leaves it
  as it is and the risk level Low, which needs a total above 70, is never returned.
\<close>

theorem reputation_never_low_risk:
  "fst (reputation_total u w) \<le> 65 \<and>
   score (analyze_email_reputation u w) = fst (reputation_total u w) \<and>
   risk_level (analyze_email_reputation u w) \<noteq> Low"
  using reputation_points_le [of u w]
  by (simp add: analyze_email_reputation_def Let_def reputation_total_points)

theorem reputation_never_low_risk_witness:
  "fst (reputation_total ''John.doe-2019'' (Age 4000)) = 65 \<and>
   score (analyze_email_reputation ''John.doe-2019'' (Age 4000)) = 65 \<and>
   risk_level (analyze_email_reputation ''John.doe-2019'' (Age 4000)) = Medium"
proof -
  have "fst (reputation_total ''John.doe-2019'' (Age 4000)) = 65"
    by code_simp
  moreover have "risk_level (analyze_email_reputation ''John.doe-2019'' (Age 4000)) = Medium"
    by code_simp
  ultimately show ?thesis
    using reputation_never_low_risk [of "''John.doe-2019''" "Age 4000"] by simp
qed

subsection \<open>Splitting\<close>

lemma split_on_nonempty: "split_on d s \<noteq> []"
  by (induction s) (auto split: list.splits)






subsection \<open>Professional score\<close>









subsection \<open>Command line\<close>








subsection \<open>Identity\<close>

lemma is_year_length: "is_year y \<Longrightarrow> length y = 4"
  by (simp add: is_year_def)

lemma residuals_birth_year:
  "residuals birth_year_pattern s = (if is_year (take 4 s) then [drop 4 s] else [])"
proof (cases s)
  case Nil
  then show ?thesis by (simp add: birth_year_pattern_def chr_def is_year_def)
next
  case s1: (Cons a s1)
  show ?thesis
  proof (cases s1)
    case Nil
    with s1 show ?thesis by (simp add: birth_year_pattern_def chr_def is_year_def)
  next
    case s2: (Cons b s2)
    show ?thesis
    proof (cases s2)
      case Nil
      with s1 s2 show ?thesis by (simp add: birth_year_pattern_def chr_def is_year_def)
    next
      case s3: (Cons c s3)
      show ?thesis
      proof (cases s3)
        case Nil
        with s1 s2 s3 show ?thesis by (simp add: birth_year_pattern_def chr_def is_year_def)
      next
        case (Cons d s4)
        with s1 s2 s3 show ?thesis
          by (simp add: birth_year_pattern_def chr_def is_year_def)
      qed
    qed
  qed
qed

lemma re_search_birth_year: "re_search birth_year_pattern s = first_year s"
proof (induction s)
  case Nil
  show ?case by (simp add: residuals_birth_year is_year_def)
next
  case (Cons c cs)
  show ?case
  proof (cases "is_year (take 4 (c # cs))")
    case True
    then have "length (take 4 (c # cs)) = 4"
      by (rule is_year_length)
    then have "length (c # cs) - length (drop 4 (c # cs)) = 4"
      by simp
    with True show ?thesis
      by (simp add: residuals_birth_year del: take_Suc_Cons drop_Suc_Cons)
  next
    case False
    with Cons.IH show ?thesis
      by (simp add: residuals_birth_year del: take_Suc_Cons drop_Suc_Cons)
  qed
qed

lemma last_birth_year_Nil: "last_birth_year [] = None"
  by (simp add: last_birth_year_def)

lemma last_birth_year_Cons:
  "last_birth_year (p # ps) =
     (case last_birth_year ps of Some y \<Rightarrow> Some y | None \<Rightarrow> first_year p)"
proof (cases "filter (\<lambda>p. first_year p \<noteq> None) ps = []")
  case True
  then show ?thesis
    by (auto simp: last_birth_year_def)
next
  case False
  then have "last (filter (\<lambda>p. first_year p \<noteq> None) ps) \<in>
      set (filter (\<lambda>p. first_year p \<noteq> None) ps)"
    by (rule last_in_set)
  then have "first_year (last (filter (\<lambda>p. first_year p \<noteq> None) ps)) \<noteq> None"
    by simp
  with False show ?thesis
    by (auto simp: last_birth_year_def Let_def)
qed

lemma name_fragments_Cons:
  "name_fragments title (p # ps) =
     (if clean_part (strip_year p) \<noteq> []
      then [capitalize title (clean_part (strip_year p))] else [])
     @ name_fragments title ps"
  by (simp add: name_fragments_def)

lemma scan_parts_spec:
  "scan_parts title parts (year, acc) =
     ((case last_birth_year parts of Some y \<Rightarrow> Some y | None \<Rightarrow> year),
      acc @ name_fragments title parts)"
proof (induction parts arbitrary: year acc)
  case Nil
  show ?case by (simp add: last_birth_year_Nil name_fragments_def)
next
  case (Cons p ps)
  have part: "(case first_year p of Some y \<Rightarrow> remove_all y p | None \<Rightarrow> p) = strip_year p"
    by (simp add: strip_year_def)
  show ?case
    by (simp add: Let_def Cons.IH re_search_birth_year part last_birth_year_Cons
        name_fragments_Cons split: option.splits)
qed

lemma last_birth_year_found:
  "\<exists>p \<in> set parts. first_year p \<noteq> None \<Longrightarrow> \<exists>y. last_birth_year parts = Some y"
proof -
  assume "\<exists>p \<in> set parts. first_year p \<noteq> None"
  then have ne: "filter (\<lambda>p. first_year p \<noteq> None) parts \<noteq> []"
    by (simp add: filter_empty_conv)
  then have "last (filter (\<lambda>p. first_year p \<noteq> None) parts) \<in>
      set (filter (\<lambda>p. first_year p \<noteq> None) parts)"
    by (rule last_in_set)
  then have "first_year (last (filter (\<lambda>p. first_year p \<noteq> None) parts)) \<noteq> None"
    by simp
  with ne show ?thesis
    by (auto simp: last_birth_year_def Let_def)
qed

lemma first_year_is_year: "first_year s = Some y \<Longrightarrow> is_year y"
  by (induction s) (auto split: if_splits)

lemma last_birth_year_is_year: "last_birth_year parts = Some y \<Longrightarrow> is_year y"
  by (auto simp: last_birth_year_def Let_def split: if_splits dest: first_year_is_year)

text \<open>
  C2, as the code has it: the username is split on dots and every fragment is searched
  for a year; each fragment that has one stores its first year as the possible birth
  year, over what an earlier fragment stored, so the value returned is the first year
  of the last fragment that has one. The year found is removed from its fragment
  before the fragment is stripped of digits and underscores and capitalized, and a
  username with a year in some fragment always gets a possible birth year.
\<close>

theorem birth_year_last_fragment:
  "possible_birth_year (basic_info title u) = last_birth_year (split_on CHR ''.'' u) \<and>
   name_parts title u = name_fragments title (split_on CHR ''.'' u) \<and>
   ((\<exists>p \<in> set (split_on CHR ''.'' u). first_year p \<noteq> None) \<longrightarrow>
      (\<exists>y. possible_birth_year (basic_info title u) = Some y \<and> is_year y))"
proof -
  have len: "1 \<le> length (split_on CHR ''.'' u)"
    using split_on_nonempty [of "CHR ''.''" u] by (cases "split_on CHR ''.'' u") simp_all
  have year: "possible_birth_year (basic_info title u) = last_birth_year (split_on CHR ''.'' u)"
    using len by (simp add: basic_info_def Let_def scan_parts_spec split: option.splits)
  have parts: "name_parts title u = name_fragments title (split_on CHR ''.'' u)"
    by (simp add: name_parts_def scan_parts_spec)
  have "\<exists>y. last_birth_year (split_on CHR ''.'' u) = Some y \<and> is_year y"
    if "\<exists>p \<in> set (split_on CHR ''.'' u). first_year p \<noteq> None"
    using last_birth_year_found [OF that] last_birth_year_is_year by blast
  with year parts show ?thesis
    by simp
qed

theorem birth_year_last_fragment_witness:
  "split_on CHR ''.'' ''john.doe2019'' = [''john'', ''doe2019''] \<and>
   first_year ''doe2019'' = Some ''2019'' \<and>
   possible_birth_year (basic_info ascii_title ''john.doe2019'') = Some ''2019'' \<and>
   name_parts ascii_title ''john.doe2019'' = [''John'', ''Doe'']"
proof -
  have a: "split_on CHR ''.'' ''john.doe2019'' = [''john'', ''doe2019'']"
    and b: "first_year ''doe2019'' = Some ''2019''"
    and c: "last_birth_year [''john'', ''doe2019''] = Some ''2019''"
    and d: "name_fragments ascii_title [''john'', ''doe2019''] = [''John'', ''Doe'']"
    by code_simp+
  show ?thesis
    using a b c d birth_year_last_fragment [of ascii_title "''john.doe2019''"] by simp
qed

text \<open>
  C2 as stated fails: in \<open>a1990.b2001\<close> the first year in fragment order is
  \<open>1990\<close>, and the possible birth year returned is \<open>2001\<close>.
\<close>

theorem birth_year_first_fragment_counterexample:
  "split_on CHR ''.'' ''a1990.b2001'' = [''a1990'', ''b2001''] \<and>
   first_birth_year (split_on CHR ''.'' ''a1990.b2001'') = Some ''1990'' \<and>
   possible_birth_year (basic_info ascii_title ''a1990.b2001'') = Some ''2001''"
  by code_simp

subsection \<open>Loops over a catalog\<close>

lemma for_each_update:
  assumes step: "\<And>k x s. (k, x) \<in> set cat \<Longrightarrow>
      \<exists>s'. body (k, x) s = Inr s' \<and>
           g s' = (case f k x of None \<Rightarrow> g s | Some v \<Rightarrow> AList.update k v (g s))"
    and dist: "distinct (map fst cat)"
  shows "\<exists>s'. for_each body cat s = Inr s' \<and>
           (distinct (map fst (g s)) \<longrightarrow> distinct (map fst (g s'))) \<and>
           (\<forall>k. map_of (g s') k =
              (case map_of cat k of
                 None \<Rightarrow> map_of (g s) k
               | Some x \<Rightarrow> (case f k x of None \<Rightarrow> map_of (g s) k | Some v \<Rightarrow> Some v)))"
  using step dist
proof (induction cat arbitrary: s)
  case Nil
  show ?case by simp
next
  case (Cons a cat)
  obtain k x where a: "a = (k, x)"
    by (cases a)
  from Cons.prems(1) [of k x s] a obtain s1 where s1: "body (k, x) s = Inr s1"
    and g1: "g s1 = (case f k x of None \<Rightarrow> g s | Some v \<Rightarrow> AList.update k v (g s))"
    by auto
  from Cons.prems(2) a have fresh: "map_of cat k = None" and dist': "distinct (map fst cat)"
    by (auto simp: map_of_eq_None_iff)
  have "\<exists>s'. for_each body cat s1 = Inr s' \<and>
           (distinct (map fst (g s1)) \<longrightarrow> distinct (map fst (g s'))) \<and>
           (\<forall>k. map_of (g s') k =
              (case map_of cat k of
                 None \<Rightarrow> map_of (g s1) k
               | Some x \<Rightarrow> (case f k x of None \<Rightarrow> map_of (g s1) k | Some v \<Rightarrow> Some v)))"
    by (rule Cons.IH) (use Cons.prems(1) dist' in auto)
  then obtain s' where run: "for_each body cat s1 = Inr s'"
    and d': "distinct (map fst (g s1)) \<longrightarrow> distinct (map fst (g s'))"
    and m': "\<And>j. map_of (g s') j =
              (case map_of cat j of
                 None \<Rightarrow> map_of (g s1) j
               | Some x \<Rightarrow> (case f j x of None \<Rightarrow> map_of (g s1) j | Some v \<Rightarrow> Some v))"
    by blast
  have d1: "distinct (map fst (g s)) \<longrightarrow> distinct (map fst (g s1))"
    by (simp add: g1 distinct_update split: option.splits)
  have m1: "map_of (g s1) j =
      (if j = k then (case f k x of None \<Rightarrow> map_of (g s) k | Some v \<Rightarrow> Some v)
       else map_of (g s) j)" for j
    by (simp add: g1 update_conv' split: option.splits)
  have "map_of (g s') j =
      (case map_of (a # cat) j of
         None \<Rightarrow> map_of (g s) j
       | Some x \<Rightarrow> (case f j x of None \<Rightarrow> map_of (g s) j | Some v \<Rightarrow> Some v))" for j
  proof (cases "j = k")
    case True
    show ?thesis
      unfolding True using fresh by (simp add: m' m1 a)
  next
    case False
    then show ?thesis
      by (simp add: m' m1 a split: option.splits)
  qed
  with run d' d1 show ?case
    by (simp add: a s1)
qed

subsection \<open>Probing the platforms\<close>

lemma probe_url_match:
  "(\<exists>p. probe_url get username platform url = Inr (Some p)) \<longleftrightarrow> positive_match (get url)"
  by (auto simp: probe_url_def positive_match_def readable_title_def title_lower_def Let_def
      split: sum.splits option.splits soup_title.splits if_splits)

lemma probe_url_taken:
  "positive_match (get url) \<Longrightarrow>
   probe_url get username platform url = Inr (Some (taken get username platform url))"
  using probe_url_match [of get username platform url] by (auto simp: taken_def)

lemma probe_url_skipped:
  "\<not> positive_match (get url) \<Longrightarrow>
   try_except (probe_url get username platform url) (\<lambda>e. Inr None) = Inr None"
  using probe_url_match [of get username platform url]
  by (cases "probe_url get username platform url")
    (auto simp: try_except_def split: option.splits)

lemma candidates_simps:
  "candidates [] = []"
  "candidates (None # urls) = candidates urls"
  "candidates (Some u # urls) = u # candidates urls"
  by (simp_all add: candidates_def List.map_filter_simps)

lemma probe_urls_first:
  "probe_urls get username platform urls profiles =
     Inr (case first_match get urls of
            None \<Rightarrow> profiles
          | Some u \<Rightarrow> AList.update platform (taken get username platform u) profiles)"
proof (induction urls)
  case Nil
  show ?case by (simp add: first_match_def candidates_simps)
next
  case (Cons ou urls)
  show ?case
  proof (cases ou)
    case None
    with Cons.IH show ?thesis
      by (simp add: first_match_def candidates_simps)
  next
    case (Some u)
    show ?thesis
    proof (cases "positive_match (get u)")
      case True
      with Some show ?thesis
        by (simp add: first_match_def candidates_simps probe_url_taken try_except_def)
    next
      case False
      with Some Cons.IH show ?thesis
        by (simp add: first_match_def candidates_simps probe_url_skipped)
    qed
  qed
qed

lemma set_found_url: "k \<noteq> ''url'' \<Longrightarrow> map_of (set_found k e p) ''url'' = map_of p ''url''"
  by (simp add: set_found_def update_conv' split: option.splits)

lemma extract_fields_url: "map_of (extract_fields platform r p) ''url'' = map_of p ''url''"
  by (simp add: extract_fields_def set_found_url)

lemma taken_url:
  "positive_match (get u) \<Longrightarrow> map_of (taken get username platform u) ''url'' = Some u"
  by (auto simp: taken_def probe_url_def positive_match_def readable_title_def title_lower_def
      Let_def extract_fields_url split: sum.splits option.splits soup_title.splits if_splits)

lemma first_match_positive: "first_match get urls = Some u \<Longrightarrow> positive_match (get u)"
  by (auto simp: first_match_def find_Some_iff)

text \<open>
  C5, as the code has it: the answer for a URL is taken as a profile exactly when its
  status is 200, its title can be read and the lower-cased title holds none of the
  four negative markers; the body outside the title is not looked at. The URLs of a
  platform are tried in their declared order, and the first one that passes is stored
  for the platform, with the later ones left untried.
\<close>

theorem first_valid_candidate_taken:
  "((\<exists>p. probe_url get username platform url = Inr (Some p)) \<longleftrightarrow> positive_match (get url)) \<and>
   probe_urls get username platform urls profiles =
     Inr (case first_match get urls of
            None \<Rightarrow> profiles
          | Some u \<Rightarrow> AList.update platform (taken get username platform u) profiles) \<and>
   (\<forall>u. first_match get urls = Some u \<longrightarrow>
      positive_match (get u) \<and> map_of (taken get username platform u) ''url'' = Some u)"
  using probe_url_match [of get username platform url]
    probe_urls_first [of get username platform urls profiles]
    first_match_positive [of get urls] taken_url [of get _ username platform]
  by blast

theorem first_valid_candidate_taken_witness:
  "first_match example_site
     [Some ''https://github.com/john.doe'', Some ''https://github.com/johndoe''] =
     Some ''https://github.com/johndoe'' \<and>
   positive_match (example_site ''https://github.com/johndoe'') \<and>
   probe_urls example_site ''john.doe'' ''GitHub''
     [Some ''https://github.com/john.doe'', Some ''https://github.com/johndoe''] [] =
     Inr [(''GitHub'',
           [(''url'', ''https://github.com/johndoe''), (''status'', ''Found''),
            (''username'', ''john.doe''), (''title'', ''johndoe (John Doe)'')])]"
proof -
  have a: "first_match example_site
     [Some ''https://github.com/john.doe'', Some ''https://github.com/johndoe''] =
     Some ''https://github.com/johndoe''"
    by code_simp
  have b: "taken example_site ''john.doe'' ''GitHub'' ''https://github.com/johndoe'' =
     [(''url'', ''https://github.com/johndoe''), (''status'', ''Found''),
      (''username'', ''john.doe''), (''title'', ''johndoe (John Doe)'')]"
    by code_simp
  show ?thesis
    using a b
      first_valid_candidate_taken [of example_site "''john.doe''" "''GitHub''"
        "''https://github.com/johndoe''"
        "[Some ''https://github.com/john.doe'', Some ''https://github.com/johndoe'']" "[]"]
    by simp
qed

text \<open>
  C5 as stated fails. A page with status 200 and the title \<open>Jane Doe\<close> whose body
  holds the marker \<open>error\<close> is taken as a profile. And a page with status 200 whose
  title tag has no text holds no marker at all, yet it is not taken: lower-casing the
  missing title raises, and the handler goes on to the next URL.
\<close>

theorem body_marker_counterexample:
  "\<not> stated_match
       (Inr (plain_response 200 (Title (Some ''Jane Doe''))
              ''<title>Jane Doe</title> internal error'')) \<and>
   probe_urls
     (serve (plain_response 200 (Title (Some ''Jane Doe''))
              ''<title>Jane Doe</title> internal error''))
     ''jane'' ''GitHub'' [Some ''https://github.com/jane''] [] =
     Inr [(''GitHub'',
           [(''url'', ''https://github.com/jane''), (''status'', ''Found''),
            (''username'', ''jane''), (''title'', ''Jane Doe'')])] \<and>
   stated_match (Inr (plain_response 200 (Title None) ''<title></title>'')) \<and>
   probe_url (serve (plain_response 200 (Title None) ''<title></title>''))
     ''jane'' ''GitHub'' ''https://github.com/jane'' = Inl AttributeError \<and>
   probe_urls (serve (plain_response 200 (Title None) ''<title></title>''))
     ''jane'' ''GitHub'' [Some ''https://github.com/jane''] [] = Inr []"
  by code_simp

subsection \<open>One result per platform\<close>

lemma footprint_platforms_distinct: "distinct (map fst (footprint_platforms email username))"
  by (simp add: footprint_platforms_def)

lemma social_platforms_distinct: "distinct (map fst (social_platforms username))"
  by (simp add: social_platforms_def Let_def)

lemma probe_platform_step:
  "\<exists>fp'. probe_platform get (p, url) fp = Inr fp' \<and>
     platforms fp' =
       (case footprint_entry get url of
          None \<Rightarrow> platforms fp
        | Some v \<Rightarrow> AList.update p v (platforms fp))"
  by (cases "get url") (simp_all add: probe_platform_def try_except_def footprint_entry_def)

lemma footprint_loop:
  "\<exists>fp. for_each (probe_platform get) (footprint_platforms email username)
           \<lparr> platforms = [], visibility_score = 0, footprint_risk_level = Low,
             footprint_recommendations = [] \<rparr> = Inr fp \<and>
        distinct (map fst (platforms fp)) \<and>
        (\<forall>k. map_of (platforms fp) k =
           (case map_of (footprint_platforms email username) k of
              None \<Rightarrow> None
            | Some url \<Rightarrow> footprint_entry get url))"
proof -
  let ?init = "\<lparr> platforms = [], visibility_score = 0, footprint_risk_level = Low,
             footprint_recommendations = [] \<rparr>"
  have "\<exists>s'. for_each (probe_platform get) (footprint_platforms email username) ?init = Inr s' \<and>
      (distinct (map fst (platforms ?init)) \<longrightarrow> distinct (map fst (platforms s'))) \<and>
      (\<forall>k. map_of (platforms s') k =
         (case map_of (footprint_platforms email username) k of
            None \<Rightarrow> map_of (platforms ?init) k
          | Some x \<Rightarrow>
              (case footprint_entry get x of
                 None \<Rightarrow> map_of (platforms ?init) k
               | Some v \<Rightarrow> Some v)))"
    by (rule for_each_update [where f = "\<lambda>k. footprint_entry get"])
      (simp_all add: probe_platform_step footprint_platforms_distinct)
  then obtain fp where
    run: "for_each (probe_platform get) (footprint_platforms email username) ?init = Inr fp"
    and d0: "distinct (map fst (platforms ?init)) \<longrightarrow> distinct (map fst (platforms fp))"
    and m0: "\<And>k. map_of (platforms fp) k =
         (case map_of (footprint_platforms email username) k of
            None \<Rightarrow> map_of (platforms ?init) k
          | Some x \<Rightarrow>
              (case footprint_entry get x of
                 None \<Rightarrow> map_of (platforms ?init) k
               | Some v \<Rightarrow> Some v))"
    by blast
  from d0 have d: "distinct (map fst (platforms fp))"
    by simp
  have "map_of (platforms fp) k =
     (case map_of (footprint_platforms email username) k of
        None \<Rightarrow> None
      | Some url \<Rightarrow> footprint_entry get url)" for k
    unfolding m0 by (simp split: option.splits)
  with run d show ?thesis
    by blast
qed

lemma visibility_level_platforms: "platforms (visibility_level fp) = platforms fp"
  by (simp add: visibility_level_def)

lemma footprint_result:
  "\<exists>fp. analyze_social_footprint get email username = Inr fp \<and>
        distinct (map fst (platforms fp)) \<and>
        (\<forall>(p, url) \<in> set (footprint_platforms email username).
           map_of (platforms fp) p = footprint_entry get url)"
proof -
  from footprint_loop [of get email username] obtain fp where
    run: "for_each (probe_platform get) (footprint_platforms email username)
           \<lparr> platforms = [], visibility_score = 0, footprint_risk_level = Low,
             footprint_recommendations = [] \<rparr> = Inr fp"
    and d: "distinct (map fst (platforms fp))"
    and m: "\<And>k. map_of (platforms fp) k =
           (case map_of (footprint_platforms email username) k of
              None \<Rightarrow> None
            | Some url \<Rightarrow> footprint_entry get url)"
    by blast
  have "map_of (platforms fp) p = footprint_entry get url"
    if "(p, url) \<in> set (footprint_platforms email username)" for p url
  proof -
    from that have "map_of (footprint_platforms email username) p = Some url"
      using footprint_platforms_distinct [of email username] by simp
    then show ?thesis
      by (simp add: m)
  qed
  with run d show ?thesis
    by (auto simp: analyze_social_footprint_def visibility_level_platforms)
qed

lemma profiles_result:
  "\<exists>d. social_profiles get username = Inr d \<and>
       distinct (map fst d) \<and>
       (\<forall>(p, urls) \<in> set (social_platforms username).
          map_of d p = map_option (taken get username p) (first_match get urls))"
proof -
  have "\<exists>s'. for_each (\<lambda>(platform, urls) profiles.
                 probe_urls get username platform urls profiles)
               (social_platforms username) [] = Inr s' \<and>
      (distinct (map fst ([] :: (string \<times> profile) list)) \<longrightarrow> distinct (map fst s')) \<and>
      (\<forall>k. map_of s' k =
         (case map_of (social_platforms username) k of
            None \<Rightarrow> map_of [] k
          | Some x \<Rightarrow>
              (case map_option (taken get username k) (first_match get x) of
                 None \<Rightarrow> map_of [] k
               | Some v \<Rightarrow> Some v)))"
    by (rule for_each_update
        [where f = "\<lambda>k x. map_option (taken get username k) (first_match get x)"
           and g = "\<lambda>s. s"])
      (simp_all add: probe_urls_first social_platforms_distinct split: option.splits)
  then obtain d where run0: "for_each (\<lambda>(platform, urls) profiles.
                 probe_urls get username platform urls profiles)
               (social_platforms username) [] = Inr d"
    and d0: "distinct (map fst ([] :: (string \<times> profile) list)) \<longrightarrow> distinct (map fst d)"
    and m0: "\<And>k. map_of d k =
         (case map_of (social_platforms username) k of
            None \<Rightarrow> map_of [] k
          | Some x \<Rightarrow>
              (case map_option (taken get username k) (first_match get x) of
                 None \<Rightarrow> map_of [] k
               | Some v \<Rightarrow> Some v))"
    by blast
  from run0 have run: "social_profiles get username = Inr d"
    by (simp add: social_profiles_def)
  from d0 have dist: "distinct (map fst d)"
    by simp
  have m: "map_of d k =
         (case map_of (social_platforms username) k of
            None \<Rightarrow> None
          | Some x \<Rightarrow> map_option (taken get username k) (first_match get x))" for k
    unfolding m0 by (simp split: option.splits)
  have "map_of d p = map_option (taken get username p) (first_match get urls)"
    if "(p, urls) \<in> set (social_platforms username)" for p urls
  proof -
    from that have "map_of (social_platforms username) p = Some urls"
      using social_platforms_distinct [of username] by simp
    then show ?thesis
      by (simp add: m)
  qed
  with run dist show ?thesis
    by auto
qed

lemma first_match_none:
  "\<forall>u \<in> set (candidates urls). \<not> positive_match (get u) \<Longrightarrow> first_match get urls = None"
  by (simp add: first_match_def find_None_iff)

lemma failed_not_positive: "get u = Inl e \<Longrightarrow> \<not> positive_match (get u)"
  by (simp add: positive_match_def)

text \<open>
  C3, as the code has it. Neither loop lets an exception out, and each gives at most
  one result per platform. In \<open>analyze_personal_info\<close> a platform gets a result only
  for its first URL that passes the validity test, so a platform whose every URL fails
  or times out gets none. In \<open>analyze_social_footprint\<close> a platform whose request
  raises gets a result with \<open>found\<close> false and a non-empty status text, and a
  platform that answers 200 gets a result with \<open>found\<close> true.
\<close>

theorem at_most_one_result_per_platform:
  "(\<exists>d. social_profiles get username = Inr d \<and>
        distinct (map fst d) \<and>
        (\<forall>(p, urls) \<in> set (social_platforms username).
           map_of d p = map_option (taken get username p) (first_match get urls) \<and>
           ((\<forall>u \<in> set (candidates urls). \<exists>e. get u = Inl e) \<longrightarrow> map_of d p = None))) \<and>
   (\<exists>fp. analyze_social_footprint get email username = Inr fp \<and>
         distinct (map fst (platforms fp)) \<and>
         (\<forall>(p, url) \<in> set (footprint_platforms email username).
            ((\<exists>e. get url = Inl e) \<longrightarrow>
               (\<exists>r. map_of (platforms fp) p = Some r \<and> \<not> found r \<and> entry_status r \<noteq> [])) \<and>
            (\<forall>r. get url = Inr r \<and> status_code r = 200 \<longrightarrow>
               map_of (platforms fp) p = Some (active url) \<and> found (active url))))"
proof -
  from footprint_result [of get email username] obtain fp where
    fp: "analyze_social_footprint get email username = Inr fp"
      "distinct (map fst (platforms fp))"
      "\<forall>(p, url) \<in> set (footprint_platforms email username).
         map_of (platforms fp) p = footprint_entry get url"
    by blast
  have raised: "\<exists>r. footprint_entry get url = Some r \<and> \<not> found r \<and> entry_status r \<noteq> []"
    if "get url = Inl e" for url e
    using that by (simp add: footprint_entry_def not_found_def)
  have ok: "footprint_entry get url = Some (active url) \<and> found (active url)"
    if "get url = Inr r" "status_code r = 200" for url r
    using that by (simp add: footprint_entry_def active_def)
  from fp raised ok have second:
    "\<exists>fp. analyze_social_footprint get email username = Inr fp \<and>
         distinct (map fst (platforms fp)) \<and>
         (\<forall>(p, url) \<in> set (footprint_platforms email username).
            ((\<exists>e. get url = Inl e) \<longrightarrow>
               (\<exists>r. map_of (platforms fp) p = Some r \<and> \<not> found r \<and> entry_status r \<noteq> [])) \<and>
            (\<forall>r. get url = Inr r \<and> status_code r = 200 \<longrightarrow>
               map_of (platforms fp) p = Some (active url) \<and> found (active url)))"
    by fastforce
  from profiles_result [of get username] obtain d where
    d: "social_profiles get username = Inr d" "distinct (map fst d)"
      "\<forall>(p, urls) \<in> set (social_platforms username).
          map_of d p = map_option (taken get username p) (first_match get urls)"
    by blast
  have "first_match get urls = None"
    if "\<forall>u \<in> set (candidates urls). \<exists>e. get u = Inl e" for urls
    using that by (intro first_match_none ballI) (auto dest: failed_not_positive)
  with d have first: "\<exists>d. social_profiles get username = Inr d \<and>
        distinct (map fst d) \<and>
        (\<forall>(p, urls) \<in> set (social_platforms username).
           map_of d p = map_option (taken get username p) (first_match get urls) \<and>
           ((\<forall>u \<in> set (candidates urls). \<exists>e. get u = Inl e) \<longrightarrow> map_of d p = None))"
    by fastforce
  from first second show ?thesis
    by (rule conjI)
qed

theorem at_most_one_result_per_platform_witness:
  "unreachable ''https://twitter.com/john.doe'' = Inl RequestException \<and>
   analyze_social_footprint unreachable ''john.doe@example.com'' ''john.doe'' =
     Inr \<lparr> platforms =
             [(''GitHub'', not_found), (''LinkedIn'', not_found), (''Twitter'', not_found),
              (''Instagram'', not_found), (''Facebook'', not_found), (''Medium'', not_found),
              (''Dev.to'', not_found), (''Stack Overflow'', not_found)],
           visibility_score = 0, footprint_risk_level = Low,
           footprint_recommendations = [''Good privacy practices detected''] \<rparr> \<and>
   \<not> found not_found \<and> entry_status not_found = ''Not found or private'' \<and>
   social_profiles example_site ''john.doe'' \<noteq> Inr []"
proof -
  have a: "analyze_social_footprint unreachable ''john.doe@example.com'' ''john.doe'' =
     Inr \<lparr> platforms =
             [(''GitHub'', not_found), (''LinkedIn'', not_found), (''Twitter'', not_found),
              (''Instagram'', not_found), (''Facebook'', not_found), (''Medium'', not_found),
              (''Dev.to'', not_found), (''Stack Overflow'', not_found)],
           visibility_score = 0, footprint_risk_level = Low,
           footprint_recommendations = [''Good privacy practices detected''] \<rparr>"
    by code_simp
  have b: "social_profiles example_site ''john.doe'' \<noteq> Inr []"
    by code_simp
  have c: "unreachable ''https://twitter.com/john.doe'' = Inl RequestException"
    by (simp add: unreachable_def)
  show ?thesis
    using a b c
      at_most_one_result_per_platform [of unreachable "''john.doe@example.com''" "''john.doe''"]
    by (simp add: not_found_def)
qed

text \<open>
  C3 as stated fails: when no request succeeds, every candidate URL of GitHub fails,
  and \<open>analyze_personal_info\<close> returns no result for GitHub, nor for any other
  platform.
\<close>

theorem missing_result_counterexample:
  "''GitHub'' \<in> fst ` set (social_platforms ''john.doe'') \<and>
   unreachable ''https://github.com/john.doe'' = Inl RequestException \<and>
   unreachable ''https://github.com/johndoe'' = Inl RequestException \<and>
   social_profiles unreachable ''john.doe'' = Inr []"
proof -
  have "''GitHub'' \<in> fst ` set (social_platforms ''john.doe'')"
    by code_simp
  moreover have "social_profiles unreachable ''john.doe'' = Inr []"
    by code_simp
  ultimately show ?thesis
    by (simp add: unreachable_def)
qed

subsection \<open>Domain analysis\<close>

lemma contains_nonempty: "contains m r \<Longrightarrow> m \<noteq> [] \<Longrightarrow> r \<noteq> []"
  by (cases r) auto

lemma truthy_next_containing:
  "m \<noteq> [] \<Longrightarrow> truthy (next_containing m rs) \<longleftrightarrow> list_ex (contains m) rs"
proof (induction rs)
  case Nil
  show ?case by (simp add: next_containing_def)
next
  case (Cons r rs)
  then show ?case
    by (auto simp: next_containing_def dest: contains_nonempty split: option.splits)
qed

lemma mx_lookup_result:
  "mx_lookup resolve domain d =
     Inr (AList.update ''mx_records''
            (PList (case resolve domain MX of Inl e \<Rightarrow> [] | Inr xs \<Rightarrow> xs)) d)"
  by (simp add: mx_lookup_def try_except_def split: sum.splits)

lemma dmarc_lookup_result:
  "dmarc_lookup resolve domain d =
     Inr (AList.update ''dmarc_record''
            (case resolve (''_dmarc.'' @ domain) TXT of
               Inl e \<Rightarrow> PNone
             | Inr ds \<Rightarrow> next_containing ''v=DMARC1'' ds) d)"
  by (simp add: dmarc_lookup_def try_except_def split: sum.splits)

lemma txt_lookup_result:
  "txt_lookup resolve domain d =
     Inr (case resolve domain TXT of
            Inl e \<Rightarrow> AList.update ''txt_records'' (PList []) d
          | Inr ts \<Rightarrow>
              AList.update ''dmarc_record''
                (case resolve (''_dmarc.'' @ domain) TXT of
                   Inl e \<Rightarrow> PNone
                 | Inr ds \<Rightarrow> next_containing ''v=DMARC1'' ds)
                (AList.update ''spf_record'' (next_containing ''v=spf1'' ts)
                  (AList.update ''txt_records'' (PList ts) d)))"
  by (simp add: txt_lookup_def try_except_def dmarc_lookup_result split: sum.splits)

lemma dns_of_mx:
  "map_of (dns_of resolve domain) ''mx_records'' =
     Some (PList (case resolve domain MX of Inl e \<Rightarrow> [] | Inr xs \<Rightarrow> xs))"
  by (simp add: dns_of_def txt_lookup_result update_conv' split: sum.splits)

lemma dns_of_txt:
  "dict_get (dns_of resolve domain) ''txt_records'' =
     PList (case resolve domain TXT of Inl e \<Rightarrow> [] | Inr ts \<Rightarrow> ts)"
  by (simp add: dns_of_def dict_get_def txt_lookup_result update_conv' split: sum.splits)

lemma dns_of_spf:
  "truthy (dict_get (dns_of resolve domain) ''spf_record'') =
     (case resolve domain TXT of Inl e \<Rightarrow> False | Inr ts \<Rightarrow> list_ex (contains ''v=spf1'') ts)"
  by (simp add: dns_of_def dict_get_def txt_lookup_result update_conv' truthy_next_containing
      split: sum.splits)

lemma dns_of_dmarc:
  "truthy (dict_get (dns_of resolve domain) ''dmarc_record'') =
     (case resolve domain TXT of
        Inl e \<Rightarrow> False
      | Inr ts \<Rightarrow>
          (case resolve (''_dmarc.'' @ domain) TXT of
             Inl e \<Rightarrow> False
           | Inr ds \<Rightarrow> list_ex (contains ''v=DMARC1'') ds))"
  by (simp add: dns_of_def dict_get_def txt_lookup_result update_conv' truthy_next_containing
      split: sum.splits)

lemma domain_analysis_failed:
  "whois domain = Inl e \<Longrightarrow>
   domain_analysis whois resolve domain =
     Inr (Domain_error domain ''Could not fetch domain information'')"
  by (simp add: domain_analysis_def try_except_def)

lemma domain_analysis_no_date:
  "whois domain = Inr info \<Longrightarrow> creation_str (creation_date info) = Inl e \<Longrightarrow>
   domain_analysis whois resolve domain =
     Inr (Domain_error domain ''Could not fetch domain information'')"
  by (simp add: domain_analysis_def try_except_def mx_lookup_result txt_lookup_result)

lemma domain_analysis_profile:
  "whois domain = Inr info \<Longrightarrow> creation_str (creation_date info) = Inr c \<Longrightarrow>
   domain_analysis whois resolve domain =
     Inr (Domain
       \<lparr> dp_name = domain, dp_creation_date = c, dp_organization = org info,
         dp_country = country info, dp_dns_info = dns_of resolve domain,
         dp_email_security =
           \<lparr> has_spf = truthy (dict_get (dns_of resolve domain) ''spf_record''),
             has_dmarc = truthy (dict_get (dns_of resolve domain) ''dmarc_record''),
             mx_providers = (case resolve domain MX of Inl e \<Rightarrow> [] | Inr xs \<Rightarrow> xs) \<rparr> \<rparr>)"
  using dns_of_mx [of resolve domain]
  by (simp add: domain_analysis_def try_except_def mx_lookup_result txt_lookup_result
      dns_of_def mx_list_def)

lemma domain_analysis_total: "\<exists>r. domain_analysis whois resolve domain = Inr r"
proof (cases "whois domain")
  case (Inl e)
  then show ?thesis by (simp add: domain_analysis_failed)
next
  case (Inr info)
  then show ?thesis
    by (cases "creation_str (creation_date info)")
      (simp_all add: domain_analysis_no_date domain_analysis_profile)
qed

text \<open>
  C4, as the code has it. No error of the domain analysis reaches the caller. The MX,
  TXT and DMARC lookups each have their own handler and their own default (no MX
  records, no TXT records, no DMARC record), the DMARC lookup being made only when the
  TXT lookup has succeeded. The WHOIS lookup has no default of its own: when it fails,
  the whole analysis is the domain name with the message that the domain information
  could not be fetched, and no MX, TXT or DMARC field is produced.
\<close>

theorem domain_steps_defaulted:
  "(\<exists>r. domain_analysis whois resolve domain = Inr r) \<and>
   (\<forall>e. whois domain = Inl e \<longrightarrow>
      domain_analysis whois resolve domain =
        Inr (Domain_error domain ''Could not fetch domain information'')) \<and>
   (\<forall>info c. whois domain = Inr info \<and> creation_str (creation_date info) = Inr c \<longrightarrow>
      (\<exists>p. domain_analysis whois resolve domain = Inr (Domain p) \<and>
           dp_creation_date p = c \<and> dp_organization p = org info \<and>
           dp_country p = country info \<and>
           mx_providers (dp_email_security p) =
             (case resolve domain MX of Inl e \<Rightarrow> [] | Inr xs \<Rightarrow> xs) \<and>
           dict_get (dp_dns_info p) ''txt_records'' =
             PList (case resolve domain TXT of Inl e \<Rightarrow> [] | Inr ts \<Rightarrow> ts) \<and>
           has_spf (dp_email_security p) =
             (case resolve domain TXT of
                Inl e \<Rightarrow> False
              | Inr ts \<Rightarrow> list_ex (contains ''v=spf1'') ts) \<and>
           has_dmarc (dp_email_security p) =
             (case resolve domain TXT of
                Inl e \<Rightarrow> False
              | Inr ts \<Rightarrow>
                  (case resolve (''_dmarc.'' @ domain) TXT of
                     Inl e \<Rightarrow> False
                   | Inr ds \<Rightarrow> list_ex (contains ''v=DMARC1'') ds))))"
proof (intro conjI allI impI)
  show "\<exists>r. domain_analysis whois resolve domain = Inr r"
    by (rule domain_analysis_total)
next
  fix e
  assume "whois domain = Inl e"
  then show "domain_analysis whois resolve domain =
      Inr (Domain_error domain ''Could not fetch domain information'')"
    by (rule domain_analysis_failed)
next
  fix info c
  assume "whois domain = Inr info \<and> creation_str (creation_date info) = Inr c"
  then have "domain_analysis whois resolve domain =
     Inr (Domain
       \<lparr> dp_name = domain, dp_creation_date = c, dp_organization = org info,
         dp_country = country info, dp_dns_info = dns_of resolve domain,
         dp_email_security =
           \<lparr> has_spf = truthy (dict_get (dns_of resolve domain) ''spf_record''),
             has_dmarc = truthy (dict_get (dns_of resolve domain) ''dmarc_record''),
             mx_providers = (case resolve domain MX of Inl e \<Rightarrow> [] | Inr xs \<Rightarrow> xs) \<rparr> \<rparr>)"
    by (simp add: domain_analysis_profile)
  then show "\<exists>p. domain_analysis whois resolve domain = Inr (Domain p) \<and>
           dp_creation_date p = c \<and> dp_organization p = org info \<and>
           dp_country p = country info \<and>
           mx_providers (dp_email_security p) =
             (case resolve domain MX of Inl e \<Rightarrow> [] | Inr xs \<Rightarrow> xs) \<and>
           dict_get (dp_dns_info p) ''txt_records'' =
             PList (case resolve domain TXT of Inl e \<Rightarrow> [] | Inr ts \<Rightarrow> ts) \<and>
           has_spf (dp_email_security p) =
             (case resolve domain TXT of
                Inl e \<Rightarrow> False
              | Inr ts \<Rightarrow> list_ex (contains ''v=spf1'') ts) \<and>
           has_dmarc (dp_email_security p) =
             (case resolve domain TXT of
                Inl e \<Rightarrow> False
              | Inr ts \<Rightarrow>
                  (case resolve (''_dmarc.'' @ domain) TXT of
                     Inl e \<Rightarrow> False
                   | Inr ds \<Rightarrow> list_ex (contains ''v=DMARC1'') ds))"
    by (simp add: dns_of_txt dns_of_spf dns_of_dmarc)
qed

theorem domain_steps_defaulted_witness:
  "example_whois ''example.com'' =
     Inr \<lparr> creation_date = Dates [''1995-08-14 04:00:00''], org = Some ''Example Org'',
           country = None \<rparr> \<and>
   creation_str (Dates [''1995-08-14 04:00:00'']) = Inr ''1995-08-14 04:00:00'' \<and>
   domain_analysis example_whois example_dns ''example.com'' =
     Inr (Domain
       \<lparr> dp_name = ''example.com'', dp_creation_date = ''1995-08-14 04:00:00'',
         dp_organization = Some ''Example Org'', dp_country = None,
         dp_dns_info =
           [(''mx_records'', PList [''mail.example.com.'']),
            (''txt_records'', PList [''v=spf1 include:_spf.example.com ~all'']),
            (''spf_record'', PStr ''v=spf1 include:_spf.example.com ~all''),
            (''dmarc_record'', PNone)],
         dp_email_security =
           \<lparr> has_spf = True, has_dmarc = False, mx_providers = [''mail.example.com.''] \<rparr> \<rparr>)"
proof -
  have a: "example_whois ''example.com'' =
     Inr \<lparr> creation_date = Dates [''1995-08-14 04:00:00''], org = Some ''Example Org'',
           country = None \<rparr>"
    by (simp add: example_whois_def)
  have b: "creation_str (Dates [''1995-08-14 04:00:00'']) = Inr ''1995-08-14 04:00:00''"
    by (simp add: creation_str_def index_def)
  have c: "domain_analysis example_whois example_dns ''example.com'' =
     Inr (Domain
       \<lparr> dp_name = ''example.com'', dp_creation_date = ''1995-08-14 04:00:00'',
         dp_organization = Some ''Example Org'', dp_country = None,
         dp_dns_info =
           [(''mx_records'', PList [''mail.example.com.'']),
            (''txt_records'', PList [''v=spf1 include:_spf.example.com ~all'']),
            (''spf_record'', PStr ''v=spf1 include:_spf.example.com ~all''),
            (''dmarc_record'', PNone)],
         dp_email_security =
           \<lparr> has_spf = True, has_dmarc = False, mx_providers = [''mail.example.com.''] \<rparr> \<rparr>)"
    by code_simp
  show ?thesis
    using a b c domain_steps_defaulted [of example_whois example_dns "''example.com''"]
    by simp
qed

text \<open>
  C4 as stated fails: with a WHOIS lookup that raises and a resolver that answers the
  MX and TXT queries, the analysis holds the name and the error message only.
\<close>

theorem whois_failure_counterexample:
  "example_dns ''example.com'' MX = Inr [''mail.example.com.''] \<and>
   example_dns ''example.com'' TXT = Inr [''v=spf1 include:_spf.example.com ~all''] \<and>
   domain_analysis no_whois example_dns ''example.com'' =
     Inr (Domain_error ''example.com'' ''Could not fetch domain information'')"
  by code_simp

text \<open>
  C6: whenever the analysis yields a profile, \<open>has_spf\<close> is true only if the TXT
  lookup of the domain returned a record containing \<open>v=spf1\<close>, \<open>has_dmarc\<close> is true
  only if the TXT lookup of \<open>_dmarc.\<close> and the domain returned a record containing
  \<open>v=DMARC1\<close>, and a DMARC lookup that raises leaves \<open>has_dmarc\<close> false; in every
  case the analysis returns a value, never an error.
\<close>

theorem spf_dmarc_only_if_marker:
  "(\<exists>r. domain_analysis whois resolve domain = Inr r) \<and>
   (\<forall>p. domain_analysis whois resolve domain = Inr (Domain p) \<longrightarrow>
      (has_spf (dp_email_security p) \<longrightarrow>
         (\<exists>ts. resolve domain TXT = Inr ts \<and> (\<exists>r \<in> set ts. contains ''v=spf1'' r))) \<and>
      (has_dmarc (dp_email_security p) \<longrightarrow>
         (\<exists>ds. resolve (''_dmarc.'' @ domain) TXT = Inr ds \<and>
               (\<exists>r \<in> set ds. contains ''v=DMARC1'' r))) \<and>
      ((\<exists>e. resolve (''_dmarc.'' @ domain) TXT = Inl e) \<longrightarrow>
         \<not> has_dmarc (dp_email_security p)))"
proof (intro conjI allI impI)
  show "\<exists>r. domain_analysis whois resolve domain = Inr r"
    by (rule domain_analysis_total)
next
  fix p
  assume res: "domain_analysis whois resolve domain = Inr (Domain p)"
  have sec: "has_spf (dp_email_security p) =
        truthy (dict_get (dns_of resolve domain) ''spf_record'') \<and>
      has_dmarc (dp_email_security p) =
        truthy (dict_get (dns_of resolve domain) ''dmarc_record'')"
  proof (cases "whois domain")
    case (Inl e)
    with res show ?thesis
      by (simp add: domain_analysis_failed)
  next
    case (Inr info)
    show ?thesis
    proof (cases "creation_str (creation_date info)")
      case (Inl e)
      with Inr res show ?thesis
        by (simp add: domain_analysis_no_date)
    next
      case c: (Inr c)
      from res have "p = \<lparr> dp_name = domain, dp_creation_date = c, dp_organization = org info,
         dp_country = country info, dp_dns_info = dns_of resolve domain,
         dp_email_security =
           \<lparr> has_spf = truthy (dict_get (dns_of resolve domain) ''spf_record''),
             has_dmarc = truthy (dict_get (dns_of resolve domain) ''dmarc_record''),
             mx_providers = (case resolve domain MX of Inl e \<Rightarrow> [] | Inr xs \<Rightarrow> xs) \<rparr> \<rparr>"
        using Inr c domain_analysis_profile [of whois domain info c resolve] by simp
      then show ?thesis
        by simp
    qed
  qed
  {
    assume "has_spf (dp_email_security p)"
    with sec show "\<exists>ts. resolve domain TXT = Inr ts \<and> (\<exists>r \<in> set ts. contains ''v=spf1'' r)"
      by (auto simp: dns_of_spf list_ex_iff split: sum.splits)
  next
    assume "has_dmarc (dp_email_security p)"
    with sec show "\<exists>ds. resolve (''_dmarc.'' @ domain) TXT = Inr ds \<and>
               (\<exists>r \<in> set ds. contains ''v=DMARC1'' r)"
      by (auto simp: dns_of_dmarc list_ex_iff split: sum.splits)
  next
    assume "\<exists>e. resolve (''_dmarc.'' @ domain) TXT = Inl e"
    with sec show "\<not> has_dmarc (dp_email_security p)"
      by (auto simp: dns_of_dmarc split: sum.splits)
  }
qed

theorem spf_dmarc_only_if_marker_witness:
  "domain_analysis example_whois example_dns ''example.com'' \<noteq>
     Inr (Domain_error ''example.com'' ''Could not fetch domain information'') \<and>
   example_dns ''example.com'' TXT = Inr [''v=spf1 include:_spf.example.com ~all''] \<and>
   contains ''v=spf1'' ''v=spf1 include:_spf.example.com ~all'' \<and>
   example_dns ''_dmarc.example.com'' TXT = Inl DnsError \<and>
   (case domain_analysis example_whois example_dns ''example.com'' of
      Inr (Domain p) \<Rightarrow> has_spf (dp_email_security p) \<and> \<not> has_dmarc (dp_email_security p)
    | _ \<Rightarrow> False)"
proof -
  have a: "domain_analysis example_whois example_dns ''example.com'' \<noteq>
     Inr (Domain_error ''example.com'' ''Could not fetch domain information'')"
    and b: "example_dns ''example.com'' TXT = Inr [''v=spf1 include:_spf.example.com ~all'']"
    and c: "contains ''v=spf1'' ''v=spf1 include:_spf.example.com ~all''"
    and d: "example_dns ''_dmarc.example.com'' TXT = Inl DnsError"
    and e: "(case domain_analysis example_whois example_dns ''example.com'' of
      Inr (Domain p) \<Rightarrow> has_spf (dp_email_security p) \<and> \<not> has_dmarc (dp_email_security p)
    | _ \<Rightarrow> False)"
    by code_simp+
  show ?thesis
    using a b c d e spf_dmarc_only_if_marker [of example_whois example_dns "''example.com''"]
    by simp
qed

subsection \<open>Security risks\<close>






subsection \<open>The run of the program\<close>








end
